theory Spec2Isabelle
  imports Complex_Main
begin

section \<open>Spanish letters in string literals\<close>

text \<open>
  The source's string literals hold Spanish letters. A \<open>string\<close> here is a list of bytes,
  so each such letter is written as its two UTF-8 bytes. The program compares these
  strings and tests them for emptiness (a minimum length of 1); a string is empty as
  bytes exactly when it is empty in JavaScript.
\<close>

definition a_acute :: string where "a_acute = [CHR 0xC3, CHR 0xA1]"
definition i_acute :: string where "i_acute = [CHR 0xC3, CHR 0xAD]"
definition o_acute :: string where "o_acute = [CHR 0xC3, CHR 0xB3]"
definition n_tilde :: string where "n_tilde = [CHR 0xC3, CHR 0xB1]"

section \<open>Catalog constants (frontend/src/types, in services/api.ts)\<close>

record RiskBucketInfo =
  label :: string
  color :: string
  description :: string

text \<open>\<open>RISK_BUCKETS\<close>: the object literal, as its entries in source order.\<close>

definition RISK_BUCKETS :: "(int \<times> RiskBucketInfo) list" where
  "RISK_BUCKETS =
    [(0, \<lparr> label = ''Conservador'', color = ''#4CAF50'',
           description = ''Prioriza preservaci'' @ o_acute @ ''n del capital'' \<rparr>),
     (1, \<lparr> label = ''Moderado'', color = ''#2196F3'',
           description = ''Balance entre seguridad y crecimiento'' \<rparr>),
     (2, \<lparr> label = ''Balanceado'', color = ''#FF9800'',
           description = ''Distribuci'' @ o_acute @ ''n equilibrada'' \<rparr>),
     (3, \<lparr> label = ''Crecimiento'', color = ''#FF5722'',
           description = ''Enfocado en crecimiento largo plazo'' \<rparr>),
     (4, \<lparr> label = ''Agresivo'', color = ''#9C27B0'',
           description = ''M'' @ a_acute @ ''ximo crecimiento, alta volatilidad'' \<rparr>)]"

text \<open>
  The property read \<open>RISK_BUCKETS[k]\<close> for a number \<open>k\<close>: \<open>None\<close> is JavaScript's
  \<open>undefined\<close>.
\<close>

definition risk_bucket_at :: "int \<Rightarrow> RiskBucketInfo option" where
  "risk_bucket_at k = map_of RISK_BUCKETS k"

text \<open>\<open>ETF_COLORS\<close>: ticker and display color, in source order.\<close>

definition ETF_COLORS :: "(string \<times> string) list" where
  "ETF_COLORS =
    [(''BIL'', ''#2E7D32''),
     (''AGG'', ''#1976D2''),
     (''ACWI'', ''#388E3C''),
     (''VNQ'', ''#F57C00''),
     (''GLD'', ''#FFD700'')]"


text \<open>
  The list "ETFs Incluidos" of the project's README: ticker, fund name and asset category.
\<close>

definition ETFS_INCLUIDOS :: "(string \<times> string \<times> string) list" where
  "ETFS_INCLUIDOS =
    [(''BIL'', ''SPDR Bloomberg 1-3 Month T-Bill ETF'', ''Efectivo/T-Bills''),
     (''AGG'', ''iShares Core U.S. Aggregate Bond ETF'', ''Bonos''),
     (''ACWI'', ''iShares MSCI ACWI ETF'', ''Acciones Globales''),
     (''VNQ'', ''Vanguard Real Estate ETF'', ''REITs''),
     (''GLD'', ''SPDR Gold Shares'', ''Oro'')]"

section \<open>The result view (frontend/src/pages/profile/RiskAssessmentPage.tsx)\<close>

text \<open>
  The payload stored by \<open>setRiskResult(response.data)\<close>, with the properties the page
  reads. \<open>model_portfolio\<close> may be absent (the page reads \<open>model_portfolio || {}\<close>).
\<close>

record RiskResult =
  total_score :: int
  risk_bucket :: int
  risk_label :: string
  risk_description :: string
  model_portfolio :: "(string \<times> real) list option"

text \<open>
  What the result branch of the component puts on screen: the bucket's color (badge,
  icon, heading and progress bar), its label and description, the score shown as
  \<open>total_score/50\<close>, the bar width \<open>(total_score / 50) * 100\<close> percent, one row per
  portfolio entry with its weight times 100, and the risk label of the payload.
\<close>

record ResultView =
  accent_color :: string
  badge_background :: string
  heading :: string
  subheading :: string
  score_shown :: int
  score_out_of :: int
  bar_width_pct :: real
  portfolio_rows :: "(string \<times> real) list"
  risk_level :: string

text \<open>Reading a property of \<open>undefined\<close> throws a \<open>TypeError\<close>; rendering stops there.\<close>

datatype render_error = TypeError

definition render_result :: "RiskResult \<Rightarrow> render_error + ResultView" where
  "render_result riskResult =
     (case risk_bucket_at (risk_bucket riskResult) of
        None \<Rightarrow> Inl TypeError
      | Some riskBucket \<Rightarrow>
          Inr \<lparr> accent_color = color riskBucket,
                badge_background = color riskBucket @ ''20'',
                heading = label riskBucket,
                subheading = description riskBucket,
                score_shown = total_score riskResult,
                score_out_of = 50,
                bar_width_pct = (real_of_int (total_score riskResult) / 50) * 100,
                portfolio_rows =
                  map (\<lambda>(ticker, weight). (ticker, weight * 100))
                    (case model_portfolio riskResult of None \<Rightarrow> [] | Some m \<Rightarrow> m),
                risk_level = risk_label riskResult \<rparr>)"

text \<open>
  The component's state and its two branches: the result view when \<open>riskResult\<close> is set,
  otherwise the question of the current step.
\<close>

record PageState =
  currentStep :: nat
  isSubmitting :: bool
  riskResult :: "RiskResult option"

datatype PageView = ShowResult ResultView | ShowQuestion nat

definition RiskAssessmentPage :: "PageState \<Rightarrow> render_error + PageView" where
  "RiskAssessmentPage st =
     (case riskResult st of
        Some r \<Rightarrow> (case render_result r of Inl e \<Rightarrow> Inl e | Inr v \<Rightarrow> Inr (ShowResult v))
      | None \<Rightarrow> Inr (ShowQuestion (currentStep st)))"

definition demo_result :: "int \<Rightarrow> RiskResult" where
  "demo_result b = \<lparr> total_score = 31, risk_bucket = b, risk_label = ''Crecimiento'',
     risk_description = ''Enfocado en crecimiento largo plazo'',
     model_portfolio = Some [(''ACWI'', 0.6), (''AGG'', 0.4)] \<rparr>"


section \<open>The catalog object at run time (frontend/src/types, in services/api.ts)\<close>






section \<open>Authentication state (frontend/src/context/AuthContext.tsx)\<close>

text \<open>
  The \<open>User\<close> interface of the application types. Optional properties
  (\<open>first_name?\<close>, \<open>last_name?\<close>) are options; \<open>id\<close> is a number.
\<close>

record User =
  id :: int
  email :: string
  first_name :: "string option"
  last_name :: "string option"
  full_name :: string
  is_active :: bool
  created_at :: string
  updated_at :: string
  has_risk_profile :: bool
  has_portfolio :: bool

text \<open>
  \<open>Partial<User>\<close>: every property of \<open>User\<close> may be absent. The selectors carry
  the prefix \<open>p_\<close> because a record of this theory cannot reuse the selector names
  of \<open>User\<close>.
\<close>

record PartialUser =
  p_id :: "int option"
  p_email :: "string option"
  p_first_name :: "string option"
  p_last_name :: "string option"
  p_full_name :: "string option"
  p_is_active :: "bool option"
  p_created_at :: "string option"
  p_updated_at :: "string option"
  p_has_risk_profile :: "bool option"
  p_has_portfolio :: "bool option"

text \<open>
  The object spread \<open>{ ...state.user, ...action.payload }\<close>: a property present in the
  payload replaces the one of the user, an absent one leaves it.
\<close>

definition spread_user :: "User \<Rightarrow> PartialUser \<Rightarrow> User" where
  "spread_user u p =
     \<lparr> id = (case p_id p of None \<Rightarrow> id u | Some v \<Rightarrow> v),
       email = (case p_email p of None \<Rightarrow> email u | Some v \<Rightarrow> v),
       first_name = (case p_first_name p of None \<Rightarrow> first_name u | Some v \<Rightarrow> Some v),
       last_name = (case p_last_name p of None \<Rightarrow> last_name u | Some v \<Rightarrow> Some v),
       full_name = (case p_full_name p of None \<Rightarrow> full_name u | Some v \<Rightarrow> v),
       is_active = (case p_is_active p of None \<Rightarrow> is_active u | Some v \<Rightarrow> v),
       created_at = (case p_created_at p of None \<Rightarrow> created_at u | Some v \<Rightarrow> v),
       updated_at = (case p_updated_at p of None \<Rightarrow> updated_at u | Some v \<Rightarrow> v),
       has_risk_profile =
         (case p_has_risk_profile p of None \<Rightarrow> has_risk_profile u | Some v \<Rightarrow> v),
       has_portfolio = (case p_has_portfolio p of None \<Rightarrow> has_portfolio u | Some v \<Rightarrow> v) \<rparr>"

text \<open>\<open>AuthState\<close>: \<open>null\<close> is \<open>None\<close>.\<close>

record AuthState =
  user :: "User option"
  isAuthenticated :: bool
  isLoading :: bool
  error :: "string option"

datatype AuthAction =
    AUTH_START
  | AUTH_SUCCESS User
  | AUTH_ERROR string
  | AUTH_LOGOUT
  | CLEAR_ERROR
  | UPDATE_USER PartialUser

definition initialState :: AuthState where
  "initialState = \<lparr> user = None, isAuthenticated = False, isLoading = True, error = None \<rparr>"

text \<open>
  The reducer, one equation per \<open>case\<close> of the \<open>switch\<close>. The action type is closed, so
  the \<open>default\<close> branch has no action to take.
\<close>

fun authReducer :: "AuthState \<Rightarrow> AuthAction \<Rightarrow> AuthState" where
  "authReducer state AUTH_START = state\<lparr> isLoading := True, error := None \<rparr>"
| "authReducer state (AUTH_SUCCESS payload) =
     state\<lparr> user := Some payload, isAuthenticated := True, isLoading := False, error := None \<rparr>"
| "authReducer state (AUTH_ERROR payload) =
     state\<lparr> user := None, isAuthenticated := False, isLoading := False, error := Some payload \<rparr>"
| "authReducer state AUTH_LOGOUT =
     state\<lparr> user := None, isAuthenticated := False, isLoading := False, error := None \<rparr>"
| "authReducer state CLEAR_ERROR = state\<lparr> error := None \<rparr>"
| "authReducer state (UPDATE_USER payload) =
     state\<lparr> user := (case user state of Some u \<Rightarrow> Some (spread_user u payload) | None \<Rightarrow> None) \<rparr>"

text \<open>
  \<open>useReducer(authReducer, initialState)\<close>: the state after a sequence of dispatched
  actions is the left fold of the reducer over them.
\<close>

definition dispatch_all :: "AuthAction list \<Rightarrow> AuthState" where
  "dispatch_all actions = foldl authReducer initialState actions"

text \<open>The states reachable from \<open>initialState\<close>, as a step relation.\<close>

inductive reachable :: "AuthState \<Rightarrow> bool" where
  reach_init: "reachable initialState"
| reach_step: "reachable s \<Longrightarrow> reachable (authReducer s a)"

definition auth_inv :: "AuthState \<Rightarrow> bool" where
  "auth_inv s = (\<not> isAuthenticated s \<or> user s \<noteq> None)"

definition demo_user :: User where
  "demo_user = \<lparr> id = 1, email = ''ana@example.com'', first_name = Some ''Ana'',
     last_name = None, full_name = ''Ana'', is_active = True,
     created_at = ''2024-01-01'', updated_at = ''2024-01-01'',
     has_risk_profile = False, has_portfolio = False \<rparr>"

section \<open>Form validation (frontend/src/pages/profile/RiskAssessmentPage.tsx)\<close>

subsection \<open>Form values\<close>

text \<open>
  The values a form field can hold when the form is submitted: nothing
  (\<open>undefined\<close>), \<open>null\<close>, \<open>NaN\<close> (what \<open>parseInt\<close> gives for a text that is no
  number), a finite number, or a string. A submission is an object; reading a property
  it does not have gives \<open>undefined\<close>.
\<close>

datatype jsvalue = JUndefined | JNull | JNaN | JNumber real | JString string

type_synonym jsobject = "(string \<times> jsvalue) list"

definition get_prop :: "jsobject \<Rightarrow> string \<Rightarrow> jsvalue" where
  "get_prop obj k = (case map_of obj k of None \<Rightarrow> JUndefined | Some v \<Rightarrow> v)"

subsection \<open>The schema library's contract\<close>

text \<open>
  The schema is built with the zod library: \<open>z.number()\<close> accepts a JavaScript number
  other than \<open>NaN\<close>, \<open>.min(m, msg)\<close> reports \<open>too_small\<close> with \<open>msg\<close> for a value below
  \<open>m\<close>, \<open>.max(m, msg)\<close> reports \<open>too_big\<close> for a value above \<open>m\<close>; \<open>z.string()\<close>
  accepts a string and \<open>.min(n, msg)\<close> reports \<open>too_small\<close> for one shorter than \<open>n\<close>.
  A value of another type is reported as \<open>invalid_type\<close>, with the message
  \<open>Required\<close> when it is \<open>undefined\<close>. \<open>z.object\<close> checks every key of its shape,
  collects all issues, and on success returns an object with exactly the keys of the
  shape and the values submitted for them.
\<close>

datatype issue_code = invalid_type | too_small | too_big

datatype ZodIssue = ZodIssue (path: string) (code: issue_code) (issue_message: string)

datatype ZodError = ZodError (issues: "ZodIssue list")

datatype number_check = NumMin real string | NumMax real string

datatype string_check = StrMin nat string

datatype zod_type = ZodNumber "number_check list" | ZodString "string_check list"

fun typeName :: "jsvalue \<Rightarrow> string" where
  "typeName JUndefined = ''undefined''"
| "typeName JNull = ''null''"
| "typeName JNaN = ''nan''"
| "typeName (JNumber x) = ''number''"
| "typeName (JString s) = ''string''"

definition invalid_type_issue :: "string \<Rightarrow> string \<Rightarrow> jsvalue \<Rightarrow> ZodIssue" where
  "invalid_type_issue p expected v =
     ZodIssue p invalid_type
       (if v = JUndefined then ''Required''
        else ''Expected '' @ expected @ '', received '' @ typeName v)"

fun run_number_check :: "string \<Rightarrow> real \<Rightarrow> number_check \<Rightarrow> ZodIssue list" where
  "run_number_check p x (NumMin m msg) = (if x < m then [ZodIssue p too_small msg] else [])"
| "run_number_check p x (NumMax m msg) = (if x > m then [ZodIssue p too_big msg] else [])"

fun run_string_check :: "string \<Rightarrow> string \<Rightarrow> string_check \<Rightarrow> ZodIssue list" where
  "run_string_check p s (StrMin n msg) =
     (if length s < n then [ZodIssue p too_small msg] else [])"

fun parse_type :: "zod_type \<Rightarrow> string \<Rightarrow> jsvalue \<Rightarrow> ZodIssue list" where
  "parse_type (ZodNumber checks) p (JNumber x) = concat (map (run_number_check p x) checks)"
| "parse_type (ZodNumber checks) p v = [invalid_type_issue p ''number'' v]"
| "parse_type (ZodString checks) p (JString s) = concat (map (run_string_check p s) checks)"
| "parse_type (ZodString checks) p v = [invalid_type_issue p ''string'' v]"

type_synonym zod_object = "(string \<times> zod_type) list"

definition object_issues :: "zod_object \<Rightarrow> jsobject \<Rightarrow> ZodIssue list" where
  "object_issues shape obj = concat (map (\<lambda>(k, t). parse_type t k (get_prop obj k)) shape)"

definition safeParse :: "zod_object \<Rightarrow> jsobject \<Rightarrow> ZodError + jsobject" where
  "safeParse shape obj =
     (if object_issues shape obj = [] then Inr (map (\<lambda>(k, t). (k, get_prop obj k)) shape)
      else Inl (ZodError (object_issues shape obj)))"

subsection \<open>The schema and the questions\<close>

definition riskAssessmentSchema :: zod_object where
  "riskAssessmentSchema =
    [(''age'', ZodNumber [NumMin 18 (''Debe ser mayor de 18 a'' @ n_tilde @ ''os''),
                         NumMax 100 (''Edad m'' @ a_acute @ ''xima 100 a'' @ n_tilde @ ''os'')]),
     (''horizon'', ZodString [StrMin 1 (''Seleccione un horizonte de inversi'' @ o_acute @ ''n'')]),
     (''income'', ZodString [StrMin 1 ''Seleccione porcentaje de ingresos'']),
     (''knowledge'', ZodString [StrMin 1 ''Seleccione nivel de conocimiento'']),
     (''max_drop'', ZodString [StrMin 1
        (''Seleccione ca'' @ i_acute @ ''da m'' @ a_acute @ ''xima tolerable'')]),
     (''reaction'', ZodString [StrMin 1 (''Seleccione su reacci'' @ o_acute @ ''n'')]),
     (''liquidity'', ZodString [StrMin 1 ''Seleccione necesidad de liquidez'']),
     (''goal'', ZodString [StrMin 1 ''Seleccione objetivo principal'']),
     (''inflation'', ZodString [StrMin 1
        (''Seleccione preocupaci'' @ o_acute @ ''n por inflaci'' @ o_acute @ ''n'')]),
     (''digital'', ZodString [StrMin 1 ''Seleccione confianza en plataformas digitales''])]"

text \<open>
  The \<open>QuestionnaireAnswers\<close> interface of the application types, as its property names
  and their declared types.
\<close>

datatype ts_type = TsNumber | TsString

definition QuestionnaireAnswers :: "(string \<times> ts_type) list" where
  "QuestionnaireAnswers =
    [(''age'', TsNumber), (''horizon'', TsString), (''income'', TsString),
     (''knowledge'', TsString), (''max_drop'', TsString), (''reaction'', TsString),
     (''liquidity'', TsString), (''goal'', TsString), (''inflation'', TsString),
     (''digital'', TsString)]"

definition categorical_fields :: "string list" where
  "categorical_fields =
    [''horizon'', ''income'', ''knowledge'', ''max_drop'', ''reaction'', ''liquidity'',
     ''goal'', ''inflation'', ''digital'']"

text \<open>
  The \<open>questions\<close> array: each question's key and its input, a slider with its bounds
  and default or a select with the \<open>value\<close> of each option, in source order. The titles
  and the options' display texts are presentation only and are left out.
\<close>

datatype question_input = Slider int int int | Select "string list"

definition questions :: "(string \<times> question_input) list" where
  "questions =
    [(''age'', Slider 18 75 30),
     (''horizon'', Select [''< 3 a'' @ n_tilde @ ''os'', ''3-5 a'' @ n_tilde @ ''os'',
        ''5-10 a'' @ n_tilde @ ''os'', ''> 10 a'' @ n_tilde @ ''os'']),
     (''income'', Select [''< 5 %'', ''5-10 %'', ''10-20 %'', ''> 20 %'']),
     (''knowledge'', Select [''Principiante'', ''Intermedio'', ''Avanzado'']),
     (''max_drop'', Select [''5 %'', ''10 %'', ''20 %'', ''30 %'', ''> 30 %'']),
     (''reaction'', Select [''Vendo todo'', ''Vendo una parte'', ''No hago nada'',
        ''Compro m'' @ a_acute @ ''s'']),
     (''liquidity'', Select [''Alta'', ''Media'', ''Baja'']),
     (''goal'', Select [''Proteger capital'', ''Ingresos regulares'', ''Crecimiento balanceado'',
        ''M'' @ a_acute @ ''ximo crecimiento'']),
     (''inflation'', Select [''No me preocupa'', ''Me preocupa moderadamente'',
        ''Me preocupa mucho'']),
     (''digital'', Select [''Baja'', ''Media'', ''Alta''])]"

text \<open>The label set of a field: the option values of its question.\<close>

definition options_of :: "string \<Rightarrow> string list" where
  "options_of k = (case map_of questions k of Some (Select vs) \<Rightarrow> vs | _ \<Rightarrow> [])"

fun is_nonempty_string :: "jsvalue \<Rightarrow> bool" where
  "is_nonempty_string (JString s) = (s \<noteq> [])"
| "is_nonempty_string v = False"

fun is_number_in :: "real \<Rightarrow> real \<Rightarrow> jsvalue \<Rightarrow> bool" where
  "is_number_in lo hi (JNumber x) = (lo \<le> x \<and> x \<le> hi)"
| "is_number_in lo hi v = False"

text \<open>Whether a value is a string that belongs to the label set of field \<open>k\<close>.\<close>

fun in_label_set :: "string \<Rightarrow> jsvalue \<Rightarrow> bool" where
  "in_label_set k (JString s) = (s \<in> set (options_of k))"
| "in_label_set k v = False"

text \<open>A complete submission, and the same with a text for \<open>horizon\<close> that is no option.\<close>

definition demo_submission :: jsobject where
  "demo_submission =
    [(''age'', JNumber 30),
     (''horizon'', JString (''3-5 a'' @ n_tilde @ ''os'')),
     (''income'', JString ''5-10 %''),
     (''knowledge'', JString ''Intermedio''),
     (''max_drop'', JString ''20 %''),
     (''reaction'', JString ''No hago nada''),
     (''liquidity'', JString ''Media''),
     (''goal'', JString ''Crecimiento balanceado''),
     (''inflation'', JString ''Me preocupa moderadamente''),
     (''digital'', JString ''Alta'')]"

definition off_list_submission :: jsobject where
  "off_list_submission = (''horizon'', JString ''medio siglo'') # demo_submission"

text \<open>Submissions that differ from the complete one in a single field.\<close>

definition underage_submission :: jsobject where
  "underage_submission = (''age'', JNumber 17) # demo_submission"

definition overage_submission :: jsobject where
  "overage_submission = (''age'', JNumber 101) # demo_submission"

definition incomplete_submission :: jsobject where
  "incomplete_submission =
    [(''age'', JNumber 30),
     (''horizon'', JString (''3-5 a'' @ n_tilde @ ''os'')),
     (''income'', JString ''5-10 %''),
     (''knowledge'', JString ''Intermedio''),
     (''max_drop'', JString ''20 %''),
     (''reaction'', JString ''No hago nada''),
     (''liquidity'', JString ''Media''),
     (''inflation'', JString ''Me preocupa moderadamente''),
     (''digital'', JString ''Alta'')]"

section \<open>The request wrapper (frontend/src/services/api.ts)\<close>

datatype http_method = GET | POST | PUT | DELETE

text \<open>
  The run-time value of a response body. The wrapper declares the body an
  \<open>ApiResponse\<close>, but \<open>response.data\<close> and \<open>error.response?.data as ApiResponse\<close> are
  not checked: the body is whatever the server sent, a parsed JSON value, a text such as
  an HTML error page, or nothing. An object is the list of its entries.
\<close>

datatype jsdata =
    DUndefined
  | DNull
  | DBool bool
  | DNumber real
  | DString string
  | DArray "jsdata list"
  | DObject "(string \<times> jsdata) list"

text \<open>JavaScript's truthiness, as \<open>apiError && \<dots>\<close> and \<open>!apiError.success\<close> test it.\<close>

fun truthy :: "jsdata \<Rightarrow> bool" where
  "truthy DUndefined = False"
| "truthy DNull = False"
| "truthy (DBool b) = b"
| "truthy (DNumber x) = (x \<noteq> 0)"
| "truthy (DString s) = (s \<noteq> [])"
| "truthy (DArray xs) = True"
| "truthy (DObject kvs) = True"

text \<open>
  The property read \<open>v.k\<close> on a truthy value: an object gives the entry or
  \<open>undefined\<close>. The wrapper reads only \<open>success\<close>, which a boolean, a number, a
  string or an array does not have.
\<close>

fun get_field :: "jsdata \<Rightarrow> string \<Rightarrow> jsdata" where
  "get_field (DObject kvs) k = (case map_of kvs k of None \<Rightarrow> DUndefined | Some v \<Rightarrow> v)"
| "get_field v k = DUndefined"

text \<open>
  The \<open>ApiResponse\<close> interface as a predicate on run-time values: an object whose
  \<open>success\<close> is a boolean, whose \<open>error\<close> and \<open>message\<close>, when present, are strings,
  whose \<open>count\<close>, when present, is a number, and whose \<open>validation_errors\<close>, when
  present, is an array of strings. \<open>data\<close> may be anything.
\<close>

fun is_string :: "jsdata \<Rightarrow> bool" where
  "is_string (DString s) = True"
| "is_string v = False"

fun is_optional_string :: "jsdata \<Rightarrow> bool" where
  "is_optional_string DUndefined = True"
| "is_optional_string (DString s) = True"
| "is_optional_string v = False"

fun is_optional_number :: "jsdata \<Rightarrow> bool" where
  "is_optional_number DUndefined = True"
| "is_optional_number (DNumber x) = True"
| "is_optional_number v = False"

fun is_optional_string_array :: "jsdata \<Rightarrow> bool" where
  "is_optional_string_array DUndefined = True"
| "is_optional_string_array (DArray xs) = list_all is_string xs"
| "is_optional_string_array v = False"

fun is_boolean :: "jsdata \<Rightarrow> bool" where
  "is_boolean (DBool b) = True"
| "is_boolean v = False"

fun is_object :: "jsdata \<Rightarrow> bool" where
  "is_object (DObject kvs) = True"
| "is_object v = False"

definition is_ApiResponse :: "jsdata \<Rightarrow> bool" where
  "is_ApiResponse v =
     (is_object v \<and>
      is_boolean (get_field v ''success'') \<and>
      is_optional_string (get_field v ''error'') \<and>
      is_optional_string (get_field v ''message'') \<and>
      is_optional_number (get_field v ''count'') \<and>
      is_optional_string_array (get_field v ''validation_errors''))"

text \<open>
  What the HTTP client hands over: a response with its status and body
  (\<open>response.data\<close>, here \<open>response_data\<close>), and an error that has a message and, when
  the server answered, the response.
\<close>

record AxiosResponse =
  status :: int
  response_data :: jsdata

record AxiosError =
  message :: string
  response :: "AxiosResponse option"

text \<open>
  What a \<open>catch\<close> can receive: an error of the HTTP client, or any other value. The two
  constructors are the two outcomes of \<open>axios.isAxiosError(error)\<close>.
\<close>

datatype thrown = AxiosErr AxiosError | OtherThrown string

text \<open>
  \<open>apiClient.request\<close> with its interceptors, the network and the server is the
  environment of the wrapper: a function giving, for a method, an endpoint and an optional
  payload, how the promise settles, fulfilled (\<open>Inr\<close>) or rejected (\<open>Inl\<close>).
\<close>

type_synonym 'p api_client = "http_method \<Rightarrow> string \<Rightarrow> 'p option \<Rightarrow> thrown + AxiosResponse"

text \<open>The object literal \<open>{ success: false, error: msg }\<close>.\<close>

definition failure :: "string \<Rightarrow> jsdata" where
  "failure msg = DObject [(''success'', DBool False), (''error'', DString msg)]"

text \<open>
  \<open>apiRequest\<close>: \<open>Inr\<close> is the value the returned promise resolves to, \<open>Inl\<close> would be
  an exception reaching the caller. \<open>error.response?.data\<close> is \<open>undefined\<close> when the
  error has no response; \<open>error.message || default\<close> takes the default text for the
  empty message.
\<close>

definition apiRequest ::
  "'p api_client \<Rightarrow> http_method \<Rightarrow> string \<Rightarrow> 'p option \<Rightarrow> thrown + jsdata" where
  "apiRequest request method endpoint payload =
     (case request method endpoint payload of
        Inr res \<Rightarrow> Inr (response_data res)
      | Inl err \<Rightarrow>
          (case err of
             AxiosErr e \<Rightarrow>
               (let apiError =
                      (case response e of None \<Rightarrow> DUndefined | Some res \<Rightarrow> response_data res)
                in if truthy apiError \<and> \<not> truthy (get_field apiError ''success'')
                   then Inr apiError
                   else Inr (failure (if message e \<noteq> [] then message e
                                      else ''Error de conexi'' @ o_acute @ ''n'')))
           | OtherThrown x \<Rightarrow> Inr (failure ''Error inesperado'')))"

text \<open>
  Clients for single requests: one that answers, one the server refuses with an
  \<open>ApiResponse\<close>, one behind a gateway that answers 502 with an HTML page, one offline,
  one whose error has no message, and one that throws something else.
\<close>

definition answering_client :: "unit api_client" where
  "answering_client method endpoint payload =
     Inr \<lparr> status = 200,
           response_data = DObject [(''success'', DBool True), (''data'', DString ''ok'')] \<rparr>"

definition refused_client :: "unit api_client" where
  "refused_client method endpoint payload =
     Inl (AxiosErr \<lparr> message = ''Request failed with status code 400'',
       response = Some \<lparr> status = 400, response_data = failure ''Email ya registrado'' \<rparr> \<rparr>)"

definition bad_gateway_client :: "unit api_client" where
  "bad_gateway_client method endpoint payload =
     Inl (AxiosErr \<lparr> message = ''Request failed with status code 502'',
       response = Some \<lparr> status = 502,
         response_data = DString ''<html><body><h1>502 Bad Gateway</h1></body></html>'' \<rparr> \<rparr>)"

definition offline_client :: "unit api_client" where
  "offline_client method endpoint payload =
     Inl (AxiosErr \<lparr> message = ''Network Error'', response = None \<rparr>)"

definition silent_client :: "unit api_client" where
  "silent_client method endpoint payload =
     Inl (AxiosErr \<lparr> message = [], response = None \<rparr>)"

definition broken_client :: "unit api_client" where
  "broken_client method endpoint payload = Inl (OtherThrown ''not an axios error'')"

section \<open>The questionnaire scorer (backend, specified)\<close>

text \<open>
  Modelled from the spec: the scorer behind \<open>/api/analysis/risk-profile\<close> and
  \<open>/api/analysis/simulate-score\<close> and its table of point values are not among the
  sources; only the calls (\<open>createRiskProfile\<close>, \<open>simulateScore\<close>) and the display of
  \<open>total_score/50\<close> are. The specification says: each of the ten fields maps, through
  the score weight table, to an integer point value in a fixed range; age through a step
  function, a categorical answer by direct lookup from label to points; each field
  contributes at most 5 points; the total is the unweighted sum; scoring fails with
  ValidationError if a field is missing or outside its declared domain, and never
  substitutes a default. The point values themselves are not specified, so the table is a
  parameter.
\<close>

record ScoreWeightTable =
  age_points :: "int \<Rightarrow> int"
  label_points :: "string \<Rightarrow> (string \<times> int) list"

text \<open>
  Modelled from the spec: the table's constraint. A valid age earns from 0 to 5 points;
  the labels of a categorical field are the option values of its question, and each
  earns from 0 to 5 points.
\<close>

definition points_in_range :: "ScoreWeightTable \<Rightarrow> bool" where
  "points_in_range t =
     ((\<forall>a. 18 \<le> a \<and> a \<le> 100 \<longrightarrow> 0 \<le> age_points t a \<and> age_points t a \<le> 5) \<and>
      (\<forall>k \<in> set categorical_fields.
         set (map fst (label_points t k)) = set (options_of k) \<and>
         (\<forall>p \<in> set (map snd (label_points t k)). 0 \<le> p \<and> p \<le> 5)))"

text \<open>Modelled from the spec: the scorer's error, carrying the name of the field at fault.\<close>

datatype score_error = ValidationError string

text \<open>Modelled from the spec: the age domain, an integer from 18 to 100.\<close>

fun age_of :: "jsvalue \<Rightarrow> int option" where
  "age_of (JNumber x) =
     (if x = real_of_int \<lfloor>x\<rfloor> \<and> 18 \<le> x \<and> x \<le> 100 then Some \<lfloor>x\<rfloor> else None)"
| "age_of v = None"

text \<open>
  Modelled from the spec: the points of one field, or the validation error naming the
  field when it is missing or outside its domain.
\<close>

definition field_points :: "ScoreWeightTable \<Rightarrow> jsobject \<Rightarrow> string \<Rightarrow> score_error + int" where
  "field_points t answers k =
     (if k = ''age'' then
        (case age_of (get_prop answers ''age'') of
           None \<Rightarrow> Inl (ValidationError ''age'')
         | Some a \<Rightarrow> Inr (age_points t a))
      else
        (case get_prop answers k of
           JString l \<Rightarrow>
             (case map_of (label_points t k) l of
                None \<Rightarrow> Inl (ValidationError k)
              | Some p \<Rightarrow> Inr p)
         | _ \<Rightarrow> Inl (ValidationError k)))"

text \<open>Modelled from the spec: the unweighted sum; the first failing field fails the sum.\<close>

fun sum_points :: "(score_error + int) list \<Rightarrow> score_error + int" where
  "sum_points [] = Inr 0"
| "sum_points (r # rs) =
     (case r of
        Inl e \<Rightarrow> Inl e
      | Inr p \<Rightarrow> (case sum_points rs of Inl e \<Rightarrow> Inl e | Inr s \<Rightarrow> Inr (p + s)))"

text \<open>Modelled from the spec: the total score of a set of answers.\<close>

definition questionnaire_score :: "ScoreWeightTable \<Rightarrow> jsobject \<Rightarrow> score_error + int" where
  "questionnaire_score t answers =
     sum_points (map (field_points t answers) (map fst QuestionnaireAnswers))"

text \<open>Modelled from the spec: valid answers, every field present and within its domain.\<close>

definition valid_answers :: "jsobject \<Rightarrow> bool" where
  "valid_answers answers =
     (age_of (get_prop answers ''age'') \<noteq> None \<and>
      list_all (\<lambda>k. in_label_set k (get_prop answers k)) categorical_fields)"

text \<open>
  A sample table within the constraint: a step function of the age, and for each
  categorical field the position of the label among the options of its question.
\<close>

definition sample_table :: ScoreWeightTable where
  "sample_table =
     \<lparr> age_points = (\<lambda>a. if a < 30 then 5 else if a < 40 then 4 else if a < 50 then 3
                          else if a < 60 then 2 else if a < 70 then 1 else 0),
       label_points = (\<lambda>k. zip (options_of k) [1, 2, 3, 4, 5]) \<rparr>"

section \<open>The diversification analysis (backend, specified)\<close>

text \<open>
  Modelled from the spec: the analysis behind \<open>/api/etfs/diversification\<close> is not among
  the sources; only its caller (\<open>analyzeDiversification\<close>) and the shape of its result
  are. The specification says: for an allocation, a mapping from ticker to weight, it
  computes the concentration per category by summing the weights of the instruments of a
  category, the diversification score \<open>1 - \<Sum>(weight\<^sub>i\<^sup>2)\<close>, and the largest single
  weight; it recommends reducing concentration when the largest weight exceeds 0.5, and
  broader diversification when fewer than 3 positions are non-zero. Weights are real
  numbers. The category of a ticker is static metadata of the instrument and is a
  parameter here.
\<close>

text \<open>
  Modelled from the spec: an allocation, the entries of a mapping from ticker to weight.
\<close>

type_synonym allocation = "(string \<times> real) list"

text \<open>Modelled from the spec: the two recommendation rules it names.\<close>

datatype recommendation = ReduceConcentration | BroadenDiversification

text \<open>
  Modelled from the spec: the report, with the property names of the
  \<open>DiversificationAnalysis\<close> interface for the parts the specification defines.
\<close>

record DiversificationReport =
  score :: real
  breakdown :: "(string \<times> real) list"
  max_concentration :: real
  recommendations :: "recommendation list"

text \<open>Modelled from the spec: the sum of squared weights, a Herfindahl-style index.\<close>

definition concentration_index :: "allocation \<Rightarrow> real" where
  "concentration_index alloc = sum_list (map (\<lambda>(ticker, weight). weight\<^sup>2) alloc)"

text \<open>Modelled from the spec: the weight held in each category.\<close>

definition category_breakdown :: "(string \<Rightarrow> string) \<Rightarrow> allocation \<Rightarrow> (string \<times> real) list" where
  "category_breakdown category_of alloc =
     map (\<lambda>c. (c, sum_list (map snd (filter (\<lambda>(ticker, weight). category_of ticker = c) alloc))))
       (remdups (map (\<lambda>(ticker, weight). category_of ticker) alloc))"

text \<open>Modelled from the spec: the analysis of an allocation.\<close>

definition analyze_diversification :: "(string \<Rightarrow> string) \<Rightarrow> allocation \<Rightarrow> DiversificationReport" where
  "analyze_diversification category_of alloc =
     (let max_weight = foldr max (map snd alloc) 0;
          positions = length (filter (\<lambda>(ticker, weight). weight \<noteq> 0) alloc)
      in \<lparr> score = 1 - concentration_index alloc,
           breakdown = category_breakdown category_of alloc,
           max_concentration = max_weight,
           recommendations =
             (if max_weight > 0.5 then [ReduceConcentration] else []) @
             (if positions < 3 then [BroadenDiversification] else []) \<rparr>)"

text \<open>The category of each ticker, from the README's list.\<close>

definition readme_category :: "string \<Rightarrow> string" where
  "readme_category ticker =
     (case map_of ETFS_INCLUIDOS ticker of Some (name, category) \<Rightarrow> category | None \<Rightarrow> [])"

section \<open>Properties of the authentication reducer\<close>

lemma auth_inv_init: "auth_inv initialState"
  by (simp add: auth_inv_def initialState_def)

lemma auth_inv_step: "auth_inv s \<Longrightarrow> auth_inv (authReducer s a)"
  by (cases a) (auto simp: auth_inv_def split: option.splits)

lemma reachable_auth_inv: "reachable s \<Longrightarrow> auth_inv s"
  by (induction rule: reachable.induct) (simp_all add: auth_inv_init auth_inv_step)

lemma reachable_foldl: "reachable s \<Longrightarrow> reachable (foldl authReducer s as)"
  by (induction as arbitrary: s) (simp_all add: reach_step)

lemma reachable_dispatch_all: "reachable (dispatch_all as)"
  unfolding dispatch_all_def by (rule reachable_foldl [OF reach_init])

text \<open>
  Claim C10. In every authentication state reachable from \<open>initialState\<close> by a sequence
  of reducer actions, an authenticated state has a user; and \<open>AUTH_ERROR\<close> and
  \<open>AUTH_LOGOUT\<close> lead, from any state, to a state with no user that is not
  authenticated.
\<close>

theorem auth_authenticated_has_user:
  "(reachable s \<longrightarrow> isAuthenticated s \<longrightarrow> user s \<noteq> None) \<and>
   (isAuthenticated (dispatch_all as) \<longrightarrow> user (dispatch_all as) \<noteq> None) \<and>
   user (authReducer s0 (AUTH_ERROR msg)) = None \<and>
   \<not> isAuthenticated (authReducer s0 (AUTH_ERROR msg)) \<and>
   user (authReducer s0 AUTH_LOGOUT) = None \<and>
   \<not> isAuthenticated (authReducer s0 AUTH_LOGOUT)"
proof -
  have a: "reachable s \<longrightarrow> isAuthenticated s \<longrightarrow> user s \<noteq> None"
    using reachable_auth_inv [of s] by (auto simp: auth_inv_def)
  have b: "isAuthenticated (dispatch_all as) \<longrightarrow> user (dispatch_all as) \<noteq> None"
    using reachable_auth_inv [OF reachable_dispatch_all, of as] by (auto simp: auth_inv_def)
  show ?thesis using a b by simp
qed

theorem auth_authenticated_has_user_witness:
  "reachable (authReducer (authReducer initialState AUTH_START) (AUTH_SUCCESS demo_user)) \<and>
   isAuthenticated (authReducer (authReducer initialState AUTH_START) (AUTH_SUCCESS demo_user)) \<and>
   user (authReducer (authReducer initialState AUTH_START) (AUTH_SUCCESS demo_user)) \<noteq> None \<and>
   isAuthenticated (dispatch_all [AUTH_START, AUTH_SUCCESS demo_user, CLEAR_ERROR]) \<and>
   user (dispatch_all [AUTH_START, AUTH_SUCCESS demo_user, CLEAR_ERROR]) \<noteq> None"
proof -
  let ?s = "authReducer (authReducer initialState AUTH_START) (AUTH_SUCCESS demo_user)"
  have r: "reachable ?s"
    by (intro reach_step reach_init)
  have i: "isAuthenticated ?s" by simp
  have j: "isAuthenticated (dispatch_all [AUTH_START, AUTH_SUCCESS demo_user, CLEAR_ERROR])"
    by (simp add: dispatch_all_def)
  show ?thesis
    using r i j
      auth_authenticated_has_user [of ?s "[AUTH_START, AUTH_SUCCESS demo_user, CLEAR_ERROR]"]
    by blast
qed


section \<open>Properties of the catalog constants\<close>

text \<open>
  Claim C5. There are exactly five risk buckets, keyed by the integers 0 to 4 in this
  order; each key has one entry with its label and description; bucket 0 is the one
  that preserves capital and bucket 4 the one of maximum growth and high volatility.
\<close>

theorem risk_buckets_five_ordered:
  "length RISK_BUCKETS = 5 \<and>
   map fst RISK_BUCKETS = [0, 1, 2, 3, 4] \<and>
   distinct (map fst RISK_BUCKETS) \<and>
   dom risk_bucket_at = {0, 1, 2, 3, 4} \<and>
   map (label \<circ> snd) RISK_BUCKETS =
     [''Conservador'', ''Moderado'', ''Balanceado'', ''Crecimiento'', ''Agresivo''] \<and>
   map_option description (risk_bucket_at 0) =
     Some (''Prioriza preservaci'' @ o_acute @ ''n del capital'') \<and>
   map_option description (risk_bucket_at 1) = Some ''Balance entre seguridad y crecimiento'' \<and>
   map_option description (risk_bucket_at 2) =
     Some (''Distribuci'' @ o_acute @ ''n equilibrada'') \<and>
   map_option description (risk_bucket_at 3) = Some ''Enfocado en crecimiento largo plazo'' \<and>
   map_option description (risk_bucket_at 4) =
     Some (''M'' @ a_acute @ ''ximo crecimiento, alta volatilidad'')"
proof -
  have f: "risk_bucket_at = map_of RISK_BUCKETS"
    by (rule ext) (simp add: risk_bucket_at_def)
  have "dom risk_bucket_at = fst ` set RISK_BUCKETS"
    unfolding f by (rule dom_map_of_conv_image_fst)
  also have "\<dots> = {0, 1, 2, 3, 4}"
    by (auto simp: RISK_BUCKETS_def)
  finally have d: "dom risk_bucket_at = {0, 1, 2, 3, 4}" .
  show ?thesis
    using d by (simp add: risk_bucket_at_def RISK_BUCKETS_def)
qed





section \<open>Properties of the result view\<close>

lemma risk_bucket_at_outside:
  "k \<notin> {0, 1, 2, 3, 4} \<Longrightarrow> risk_bucket_at k = None"
  by (simp add: risk_bucket_at_def RISK_BUCKETS_def)

lemma risk_bucket_at_inside:
  "k \<in> {0, 1, 2, 3, 4} \<Longrightarrow> \<exists>b. risk_bucket_at k = Some b"
  by (auto simp: risk_bucket_at_def RISK_BUCKETS_def)

lemma result_page_renders_known_bucket:
  assumes "risk_bucket r \<in> {0, 1, 2, 3, 4}"
  shows "\<exists>v. render_result r = Inr v"
proof -
  from risk_bucket_at_inside [OF assms]
  obtain b where "risk_bucket_at (risk_bucket r) = Some b" ..
  then show ?thesis by (simp add: render_result_def)
qed

text \<open>
  Claim C9. When the \<open>risk_bucket\<close> of the stored result is none of 0, 1, 2, 3, 4, the
  lookup in \<open>RISK_BUCKETS\<close> is undefined, reading the bucket's color and label throws,
  and the page yields no view.
\<close>

theorem result_page_needs_known_bucket:
  assumes "risk_bucket r \<notin> {0, 1, 2, 3, 4}"
  shows "risk_bucket_at (risk_bucket r) = None \<and>
         render_result r = Inl TypeError \<and>
         RiskAssessmentPage (st\<lparr> riskResult := Some r \<rparr>) = Inl TypeError"
  using risk_bucket_at_outside [OF assms]
  by (simp add: render_result_def RiskAssessmentPage_def)

theorem result_page_needs_known_bucket_witness:
  "risk_bucket (demo_result 7) \<notin> {0, 1, 2, 3, 4} \<and>
   risk_bucket_at (risk_bucket (demo_result 7)) = None \<and>
   render_result (demo_result 7) = Inl TypeError \<and>
   RiskAssessmentPage \<lparr> currentStep = 9, isSubmitting = False,
     riskResult = Some (demo_result 7) \<rparr> = Inl TypeError"
proof -
  have h: "risk_bucket (demo_result 7) \<notin> {0, 1, 2, 3, 4}"
    by (simp add: demo_result_def)
  show ?thesis
    using h result_page_needs_known_bucket [OF h,
        of "\<lparr> currentStep = 9, isSubmitting = False, riskResult = None \<rparr>"]
    by simp
qed

section \<open>Properties of the form validation\<close>

lemma string_field_issues:
  "(parse_type (ZodString [StrMin 1 msg]) k v = []) = is_nonempty_string v"
  by (cases v) auto

lemma number_field_issues:
  "(parse_type (ZodNumber [NumMin lo m1, NumMax hi m2]) k v = []) = is_number_in lo hi v"
  by (cases v) auto

lemma undefined_field_issues:
  "parse_type t k JUndefined = [ZodIssue k invalid_type ''Required'']"
  by (cases t) (simp_all add: invalid_type_issue_def)

lemma number_check_path: "i \<in> set (run_number_check p x c) \<Longrightarrow> path i = p"
  by (cases c) (auto split: if_splits)

lemma string_check_path: "i \<in> set (run_string_check p s c) \<Longrightarrow> path i = p"
  by (cases c) (auto split: if_splits)

lemma parse_type_path: "i \<in> set (parse_type t k v) \<Longrightarrow> path i = k"
  by (cases t; cases v)
    (auto simp: invalid_type_issue_def dest: number_check_path string_check_path)

lemma field_issues_in_object_issues:
  "(k, t) \<in> set shape \<Longrightarrow> set (parse_type t k (get_prop obj k)) \<subseteq> set (object_issues shape obj)"
  by (auto simp: object_issues_def)

lemma safeParse_Inr:
  "(safeParse shape obj = Inr d) =
     (object_issues shape obj = [] \<and> d = map (\<lambda>(k, t). (k, get_prop obj k)) shape)"
  by (auto simp: safeParse_def)

lemma safeParse_Inl:
  "(safeParse shape obj = Inl e) =
     (object_issues shape obj \<noteq> [] \<and> e = ZodError (object_issues shape obj))"
  by (auto simp: safeParse_def)

lemma schema_issues_empty:
  "(object_issues riskAssessmentSchema obj = []) =
     (is_number_in 18 100 (get_prop obj ''age'') \<and>
      list_all (\<lambda>k. is_nonempty_string (get_prop obj k)) categorical_fields)"
  by (simp add: object_issues_def riskAssessmentSchema_def categorical_fields_def
      string_field_issues [unfolded One_nat_def] number_field_issues)

lemma schema_keys: "map fst riskAssessmentSchema = ''age'' # categorical_fields"
  by (simp add: riskAssessmentSchema_def categorical_fields_def)

lemma schema_output:
  "map (\<lambda>(k, t). (k, get_prop obj k)) riskAssessmentSchema =
     map (\<lambda>k. (k, get_prop obj k)) (''age'' # categorical_fields)"
  by (simp add: riskAssessmentSchema_def categorical_fields_def)

lemma schema_entry_kinds:
  "list_all (\<lambda>(k, t). k = ''age'' \<or> (\<exists>msg. t = ZodString [StrMin 1 msg])) riskAssessmentSchema"
  by (simp add: riskAssessmentSchema_def)

lemma age_not_categorical: "''age'' \<notin> set categorical_fields"
  by (simp add: categorical_fields_def)

lemma categorical_in_schema:
  assumes "k \<in> set categorical_fields"
  shows "\<exists>msg. (k, ZodString [StrMin 1 msg]) \<in> set riskAssessmentSchema"
proof -
  from assms have "k \<in> set (map fst riskAssessmentSchema)"
    by (simp add: schema_keys)
  then obtain t where t: "(k, t) \<in> set riskAssessmentSchema"
    by auto
  from assms age_not_categorical have "k \<noteq> ''age''"
    by blast
  with t schema_entry_kinds obtain msg where "t = ZodString [StrMin 1 msg]"
    by (auto simp: list_all_iff)
  with t show ?thesis by blast
qed

lemma categorical_rejected:
  assumes k: "k \<in> set categorical_fields" and v: "\<not> is_nonempty_string (get_prop obj k)"
  shows "\<exists>e. safeParse riskAssessmentSchema obj = Inl e \<and> k \<in> path ` set (issues e)"
proof -
  from categorical_in_schema [OF k]
  obtain msg where m: "(k, ZodString [StrMin 1 msg]) \<in> set riskAssessmentSchema" ..
  from v have "parse_type (ZodString [StrMin 1 msg]) k (get_prop obj k) \<noteq> []"
    using string_field_issues [of msg k "get_prop obj k"] by blast
  then obtain i where i: "i \<in> set (parse_type (ZodString [StrMin 1 msg]) k (get_prop obj k))"
    by (cases "parse_type (ZodString [StrMin 1 msg]) k (get_prop obj k)") auto
  have p: "path i = k" using i by (rule parse_type_path)
  have o: "i \<in> set (object_issues riskAssessmentSchema obj)"
    using field_issues_in_object_issues [OF m, of obj] i by blast
  then have "object_issues riskAssessmentSchema obj \<noteq> []" by auto
  then have "safeParse riskAssessmentSchema obj =
      Inl (ZodError (object_issues riskAssessmentSchema obj))"
    by (simp add: safeParse_def)
  moreover have "k \<in> path ` set (issues (ZodError (object_issues riskAssessmentSchema obj)))"
    using o p by force
  ultimately show ?thesis by blast
qed

lemma map_of_tabulate: "k \<in> set ks \<Longrightarrow> map_of (map (\<lambda>k. (k, f k)) ks) k = Some (f k)"
  by (induction ks) auto

lemma accepted_output_lookup:
  "k \<in> set (''age'' # categorical_fields) \<Longrightarrow>
   map_of (map (\<lambda>k. (k, get_prop obj k)) (''age'' # categorical_fields)) k = Some (get_prop obj k)"
  by (rule map_of_tabulate)

text \<open>
  The schema checks a categorical field for presence only. It accepts the submission
  below, whose \<open>horizon\<close> is a text that is none of the four options of the question;
  the labels themselves are validated by the scorer.
\<close>

lemma schema_accepts_unlisted_text:
  "\<not> in_label_set ''horizon'' (get_prop off_list_submission ''horizon'') \<and>
   safeParse riskAssessmentSchema off_list_submission =
     Inr [(''age'', JNumber 30),
          (''horizon'', JString ''medio siglo''),
          (''income'', JString ''5-10 %''),
          (''knowledge'', JString ''Intermedio''),
          (''max_drop'', JString ''20 %''),
          (''reaction'', JString ''No hago nada''),
          (''liquidity'', JString ''Media''),
          (''goal'', JString ''Crecimiento balanceado''),
          (''inflation'', JString ''Me preocupa moderadamente''),
          (''digital'', JString ''Alta'')]"
proof -
  have a: "\<not> in_label_set ''horizon'' (get_prop off_list_submission ''horizon'')"
    by (simp add: off_list_submission_def get_prop_def options_of_def questions_def n_tilde_def)
  have b: "object_issues riskAssessmentSchema off_list_submission = []"
    by (simp add: schema_issues_empty categorical_fields_def off_list_submission_def
        demo_submission_def get_prop_def)
  have c: "map (\<lambda>k. (k, get_prop off_list_submission k)) (''age'' # categorical_fields) =
     [(''age'', JNumber 30),
      (''horizon'', JString ''medio siglo''),
      (''income'', JString ''5-10 %''),
      (''knowledge'', JString ''Intermedio''),
      (''max_drop'', JString ''20 %''),
      (''reaction'', JString ''No hago nada''),
      (''liquidity'', JString ''Media''),
      (''goal'', JString ''Crecimiento balanceado''),
      (''inflation'', JString ''Me preocupa moderadamente''),
      (''digital'', JString ''Alta'')]"
    by (simp add: categorical_fields_def off_list_submission_def demo_submission_def get_prop_def)
  show ?thesis
    using a b c by (simp add: safeParse_def schema_output)
qed

text \<open>
  The schema rejects a submission whenever one of the nine categorical fields is missing,
  is no string, or is the empty string, and reports an issue for that field. When the age
  is a number from 18 to 100 and each categorical field is a non-empty string, the
  submission is accepted, and the accepted data carry every field with the value that was
  submitted.
\<close>

lemma schema_checks_presence_only:
  "(k \<in> set categorical_fields \<longrightarrow> \<not> is_nonempty_string (get_prop obj k) \<longrightarrow>
      (\<exists>e. safeParse riskAssessmentSchema obj = Inl e \<and> k \<in> path ` set (issues e))) \<and>
   (is_number_in 18 100 (get_prop obj ''age'') \<longrightarrow>
    list_all (\<lambda>k. is_nonempty_string (get_prop obj k)) categorical_fields \<longrightarrow>
      safeParse riskAssessmentSchema obj =
        Inr (map (\<lambda>k. (k, get_prop obj k)) (''age'' # categorical_fields))) \<and>
   (safeParse riskAssessmentSchema obj = Inr d \<longrightarrow>
      (\<forall>k \<in> set categorical_fields.
         is_nonempty_string (get_prop obj k) \<and> map_of d k = Some (get_prop obj k)))"
proof (intro conjI impI ballI)
  assume "k \<in> set categorical_fields" "\<not> is_nonempty_string (get_prop obj k)"
  then show "\<exists>e. safeParse riskAssessmentSchema obj = Inl e \<and> k \<in> path ` set (issues e)"
    by (rule categorical_rejected)
next
  assume "is_number_in 18 100 (get_prop obj ''age'')"
    "list_all (\<lambda>k. is_nonempty_string (get_prop obj k)) categorical_fields"
  then show "safeParse riskAssessmentSchema obj =
      Inr (map (\<lambda>k. (k, get_prop obj k)) (''age'' # categorical_fields))"
    by (simp add: safeParse_Inr schema_issues_empty schema_output del: list.map)
next
  fix j
  assume ok: "safeParse riskAssessmentSchema obj = Inr d" and j: "j \<in> set categorical_fields"
  from ok have e: "object_issues riskAssessmentSchema obj = []"
    and d: "d = map (\<lambda>k. (k, get_prop obj k)) (''age'' # categorical_fields)"
    by (simp_all add: safeParse_Inr schema_output del: list.map)
  from e j show "is_nonempty_string (get_prop obj j)"
    by (simp add: schema_issues_empty list_all_iff)
next
  fix j
  assume ok: "safeParse riskAssessmentSchema obj = Inr d" and j: "j \<in> set categorical_fields"
  from ok have d: "d = map (\<lambda>k. (k, get_prop obj k)) (''age'' # categorical_fields)"
    by (simp add: safeParse_Inr schema_output del: list.map)
  from j have "j \<in> set (''age'' # categorical_fields)" by simp
  then show "map_of d j = Some (get_prop obj j)"
    unfolding d by (rule accepted_output_lookup)
qed
section \<open>The age bounds of the schema\<close>

lemma age_in_schema:
  "(''age'', ZodNumber [NumMin 18 (''Debe ser mayor de 18 a'' @ n_tilde @ ''os''),
      NumMax 100 (''Edad m'' @ a_acute @ ''xima 100 a'' @ n_tilde @ ''os'')])
    \<in> set riskAssessmentSchema"
  by (simp add: riskAssessmentSchema_def)

lemma issue_rejects:
  "i \<in> set (object_issues shape obj) \<Longrightarrow>
   \<exists>e. safeParse shape obj = Inl e \<and> i \<in> set (issues e)"
  by (auto simp: safeParse_def)

lemma age_too_small:
  assumes "get_prop obj ''age'' = JNumber x" and "x < 18"
  shows "\<exists>e. safeParse riskAssessmentSchema obj = Inl e \<and>
     ZodIssue ''age'' too_small (''Debe ser mayor de 18 a'' @ n_tilde @ ''os'') \<in> set (issues e)"
proof (rule issue_rejects)
  show "ZodIssue ''age'' too_small (''Debe ser mayor de 18 a'' @ n_tilde @ ''os'')
      \<in> set (object_issues riskAssessmentSchema obj)"
    using field_issues_in_object_issues [OF age_in_schema, of obj] assms by auto
qed

lemma age_too_big:
  assumes "get_prop obj ''age'' = JNumber x" and "100 < x"
  shows "\<exists>e. safeParse riskAssessmentSchema obj = Inl e \<and>
     ZodIssue ''age'' too_big (''Edad m'' @ a_acute @ ''xima 100 a'' @ n_tilde @ ''os'')
       \<in> set (issues e)"
proof (rule issue_rejects)
  show "ZodIssue ''age'' too_big (''Edad m'' @ a_acute @ ''xima 100 a'' @ n_tilde @ ''os'')
      \<in> set (object_issues riskAssessmentSchema obj)"
    using field_issues_in_object_issues [OF age_in_schema, of obj] assms by auto
qed

lemma accepted_iff:
  "(\<exists>d. safeParse riskAssessmentSchema obj = Inr d) =
     (is_number_in 18 100 (get_prop obj ''age'') \<and>
      list_all (\<lambda>k. is_nonempty_string (get_prop obj k)) categorical_fields)"
  by (simp add: safeParse_Inr schema_issues_empty)

text \<open>
  Claim C4. The schema accepts a submitted age exactly when it lies in [18, 100]: an
  accepted submission has a numeric age in that range; with the other nine fields
  filled in, an age in the range is accepted, in particular every integer from 18 to 100;
  an age below 18 is rejected with the \<open>too_small\<close> issue of the field and an age above
  100 with its \<open>too_big\<close> issue.
\<close>

theorem age_accepted_iff_in_range:
  "((\<exists>d. safeParse riskAssessmentSchema obj = Inr d) \<longrightarrow>
      is_number_in 18 100 (get_prop obj ''age'')) \<and>
   (list_all (\<lambda>k. is_nonempty_string (get_prop obj k)) categorical_fields \<longrightarrow>
    get_prop obj ''age'' = JNumber x \<longrightarrow>
      (\<exists>d. safeParse riskAssessmentSchema obj = Inr d) = (18 \<le> x \<and> x \<le> 100)) \<and>
   (list_all (\<lambda>k. is_nonempty_string (get_prop obj k)) categorical_fields \<longrightarrow>
    get_prop obj ''age'' = JNumber (real_of_int n) \<longrightarrow>
      (\<exists>d. safeParse riskAssessmentSchema obj = Inr d) = (18 \<le> n \<and> n \<le> 100)) \<and>
   (get_prop obj ''age'' = JNumber x \<longrightarrow> x < 18 \<longrightarrow>
      (\<exists>e. safeParse riskAssessmentSchema obj = Inl e \<and>
         ZodIssue ''age'' too_small (''Debe ser mayor de 18 a'' @ n_tilde @ ''os'')
           \<in> set (issues e))) \<and>
   (get_prop obj ''age'' = JNumber x \<longrightarrow> 100 < x \<longrightarrow>
      (\<exists>e. safeParse riskAssessmentSchema obj = Inl e \<and>
         ZodIssue ''age'' too_big (''Edad m'' @ a_acute @ ''xima 100 a'' @ n_tilde @ ''os'')
           \<in> set (issues e)))"
proof (intro conjI impI)
  assume "\<exists>d. safeParse riskAssessmentSchema obj = Inr d"
  then show "is_number_in 18 100 (get_prop obj ''age'')"
    by (simp add: accepted_iff)
next
  assume "list_all (\<lambda>k. is_nonempty_string (get_prop obj k)) categorical_fields"
    "get_prop obj ''age'' = JNumber x"
  then show "(\<exists>d. safeParse riskAssessmentSchema obj = Inr d) = (18 \<le> x \<and> x \<le> 100)"
    by (simp add: accepted_iff)
next
  assume "list_all (\<lambda>k. is_nonempty_string (get_prop obj k)) categorical_fields"
    "get_prop obj ''age'' = JNumber (real_of_int n)"
  then show "(\<exists>d. safeParse riskAssessmentSchema obj = Inr d) = (18 \<le> n \<and> n \<le> 100)"
    by (simp add: accepted_iff)
next
  assume "get_prop obj ''age'' = JNumber x" "x < 18"
  then show "\<exists>e. safeParse riskAssessmentSchema obj = Inl e \<and>
         ZodIssue ''age'' too_small (''Debe ser mayor de 18 a'' @ n_tilde @ ''os'')
           \<in> set (issues e)"
    by (rule age_too_small)
next
  assume "get_prop obj ''age'' = JNumber x" "100 < x"
  then show "\<exists>e. safeParse riskAssessmentSchema obj = Inl e \<and>
         ZodIssue ''age'' too_big (''Edad m'' @ a_acute @ ''xima 100 a'' @ n_tilde @ ''os'')
           \<in> set (issues e)"
    by (rule age_too_big)
qed

theorem age_accepted_iff_in_range_witness:
  "list_all (\<lambda>k. is_nonempty_string (get_prop demo_submission k)) categorical_fields \<and>
   get_prop demo_submission ''age'' = JNumber (real_of_int 30) \<and>
   (\<exists>d. safeParse riskAssessmentSchema demo_submission = Inr d) \<and>
   is_number_in 18 100 (get_prop demo_submission ''age'') \<and>
   get_prop underage_submission ''age'' = JNumber 17 \<and>
   (\<exists>e. safeParse riskAssessmentSchema underage_submission = Inl e \<and>
      ZodIssue ''age'' too_small (''Debe ser mayor de 18 a'' @ n_tilde @ ''os'')
        \<in> set (issues e)) \<and>
   get_prop overage_submission ''age'' = JNumber 101 \<and>
   (\<exists>e. safeParse riskAssessmentSchema overage_submission = Inl e \<and>
      ZodIssue ''age'' too_big (''Edad m'' @ a_acute @ ''xima 100 a'' @ n_tilde @ ''os'')
        \<in> set (issues e))"
proof -
  have c: "list_all (\<lambda>k. is_nonempty_string (get_prop demo_submission k)) categorical_fields"
    by (simp add: categorical_fields_def demo_submission_def get_prop_def)
  have a: "get_prop demo_submission ''age'' = JNumber (real_of_int 30)"
    by (simp add: demo_submission_def get_prop_def)
  have u: "get_prop underage_submission ''age'' = JNumber 17"
    by (simp add: underage_submission_def get_prop_def)
  have o: "get_prop overage_submission ''age'' = JNumber 101"
    by (simp add: overage_submission_def get_prop_def)
  from age_accepted_iff_in_range [of demo_submission "real_of_int 30" 30] c a
  have 1: "\<exists>d. safeParse riskAssessmentSchema demo_submission = Inr d"
    by simp
  from age_accepted_iff_in_range [of demo_submission "real_of_int 30" 30] 1
  have 2: "is_number_in 18 100 (get_prop demo_submission ''age'')"
    by blast
  from age_accepted_iff_in_range [of underage_submission 17 17] u
  have 3: "\<exists>e. safeParse riskAssessmentSchema underage_submission = Inl e \<and>
      ZodIssue ''age'' too_small (''Debe ser mayor de 18 a'' @ n_tilde @ ''os'')
        \<in> set (issues e)"
    by simp
  from age_accepted_iff_in_range [of overage_submission 101 101] o
  have 4: "\<exists>e. safeParse riskAssessmentSchema overage_submission = Inl e \<and>
      ZodIssue ''age'' too_big (''Edad m'' @ a_acute @ ''xima 100 a'' @ n_tilde @ ''os'')
        \<in> set (issues e)"
    by simp
  show ?thesis
    using c a u o 1 2 3 4 by (simp only: simp_thms)
qed

section \<open>The ten fields of a submission\<close>

lemma missing_field_rejected:
  assumes k: "k \<in> set (map fst shape)" and u: "get_prop obj k = JUndefined"
  shows "\<exists>e. safeParse shape obj = Inl e \<and>
     ZodIssue k invalid_type ''Required'' \<in> set (issues e)"
proof (rule issue_rejects)
  from k obtain t where t: "(k, t) \<in> set shape" by auto
  show "ZodIssue k invalid_type ''Required'' \<in> set (object_issues shape obj)"
    using field_issues_in_object_issues [OF t, of obj] u
    by (simp add: undefined_field_issues)
qed

lemma accepted_keys:
  "safeParse shape obj = Inr d \<Longrightarrow> map fst d = map fst shape"
  by (auto simp: safeParse_Inr case_prod_unfold)

lemma accepted_all_present:
  assumes "safeParse shape obj = Inr d"
  shows "list_all (\<lambda>k. get_prop obj k \<noteq> JUndefined) (map fst shape)"
  unfolding list_all_iff
proof
  fix k assume k: "k \<in> set (map fst shape)"
  show "get_prop obj k \<noteq> JUndefined"
  proof
    assume "get_prop obj k = JUndefined"
    from missing_field_rejected [OF k this] assms show False by auto
  qed
qed

lemma interface_keys: "map fst QuestionnaireAnswers = ''age'' # categorical_fields"
  by (simp add: QuestionnaireAnswers_def categorical_fields_def)

text \<open>
  Claim C7. \<open>QuestionnaireAnswers\<close> has exactly ten named fields, \<open>age\<close> and the nine
  categorical ones; the schema has the same ten keys; a submission that lacks any of
  them is rejected with the issue \<open>Required\<close> for that field, and an accepted
  submission has all ten present.
\<close>

theorem questionnaire_ten_required_fields:
  "length QuestionnaireAnswers = 10 \<and>
   distinct (map fst QuestionnaireAnswers) \<and>
   map fst QuestionnaireAnswers =
     [''age'', ''horizon'', ''income'', ''knowledge'', ''max_drop'', ''reaction'',
      ''liquidity'', ''goal'', ''inflation'', ''digital''] \<and>
   map fst QuestionnaireAnswers = ''age'' # categorical_fields \<and>
   map fst riskAssessmentSchema = map fst QuestionnaireAnswers \<and>
   (k \<in> set (map fst QuestionnaireAnswers) \<longrightarrow> get_prop obj k = JUndefined \<longrightarrow>
      (\<exists>e. safeParse riskAssessmentSchema obj = Inl e \<and>
         ZodIssue k invalid_type ''Required'' \<in> set (issues e))) \<and>
   (safeParse riskAssessmentSchema obj = Inr d \<longrightarrow>
      map fst d = map fst QuestionnaireAnswers \<and>
      list_all (\<lambda>k. get_prop obj k \<noteq> JUndefined) (map fst QuestionnaireAnswers))"
proof -
  have s: "map fst riskAssessmentSchema = map fst QuestionnaireAnswers"
    by (simp add: schema_keys interface_keys)
  have 1: "length QuestionnaireAnswers = 10"
    by (simp add: QuestionnaireAnswers_def)
  have 2: "distinct (map fst QuestionnaireAnswers)"
    by (simp add: QuestionnaireAnswers_def)
  have 3: "map fst QuestionnaireAnswers =
     [''age'', ''horizon'', ''income'', ''knowledge'', ''max_drop'', ''reaction'',
      ''liquidity'', ''goal'', ''inflation'', ''digital'']"
    by (simp add: QuestionnaireAnswers_def)
  have 4: "k \<in> set (map fst QuestionnaireAnswers) \<longrightarrow> get_prop obj k = JUndefined \<longrightarrow>
      (\<exists>e. safeParse riskAssessmentSchema obj = Inl e \<and>
         ZodIssue k invalid_type ''Required'' \<in> set (issues e))"
    using missing_field_rejected [of k riskAssessmentSchema obj] unfolding s by blast
  have 5: "safeParse riskAssessmentSchema obj = Inr d \<longrightarrow>
      map fst d = map fst QuestionnaireAnswers \<and>
      list_all (\<lambda>k. get_prop obj k \<noteq> JUndefined) (map fst QuestionnaireAnswers)"
    using accepted_keys [of riskAssessmentSchema obj d]
      accepted_all_present [of riskAssessmentSchema obj d] unfolding s by blast
  show ?thesis
    using 1 2 3 4 5 s interface_keys by (simp only: simp_thms)
qed

theorem questionnaire_ten_required_fields_witness:
  "''goal'' \<in> set (map fst QuestionnaireAnswers) \<and>
   get_prop incomplete_submission ''goal'' = JUndefined \<and>
   (\<exists>e. safeParse riskAssessmentSchema incomplete_submission = Inl e \<and>
      ZodIssue ''goal'' invalid_type ''Required'' \<in> set (issues e)) \<and>
   safeParse riskAssessmentSchema demo_submission = Inr demo_submission \<and>
   map fst demo_submission = map fst QuestionnaireAnswers \<and>
   list_all (\<lambda>k. get_prop demo_submission k \<noteq> JUndefined) (map fst QuestionnaireAnswers)"
proof -
  have g: "''goal'' \<in> set (map fst QuestionnaireAnswers)"
    by (simp add: QuestionnaireAnswers_def)
  have u: "get_prop incomplete_submission ''goal'' = JUndefined"
    by (simp add: incomplete_submission_def get_prop_def)
  have i: "object_issues riskAssessmentSchema demo_submission = []"
    by (simp add: schema_issues_empty categorical_fields_def demo_submission_def get_prop_def)
  have m: "map (\<lambda>k. (k, get_prop demo_submission k)) (''age'' # categorical_fields) =
      demo_submission"
    by (simp add: categorical_fields_def demo_submission_def get_prop_def)
  have p: "safeParse riskAssessmentSchema demo_submission = Inr demo_submission"
    using i m by (simp add: safeParse_def schema_output)
  from questionnaire_ten_required_fields [of "''goal''" incomplete_submission demo_submission] g u
  have 1: "\<exists>e. safeParse riskAssessmentSchema incomplete_submission = Inl e \<and>
      ZodIssue ''goal'' invalid_type ''Required'' \<in> set (issues e)"
    by blast
  from questionnaire_ten_required_fields [of "''goal''" demo_submission demo_submission] p
  have 2: "map fst demo_submission = map fst QuestionnaireAnswers \<and>
      list_all (\<lambda>k. get_prop demo_submission k \<noteq> JUndefined) (map fst QuestionnaireAnswers)"
    by blast
  show ?thesis
    using g u p 1 2 by (simp only: simp_thms)
qed

section \<open>Properties of the request wrapper\<close>

lemma failure_is_ApiResponse: "is_ApiResponse (failure msg)"
  by (simp add: is_ApiResponse_def failure_def)

lemma apiRequest_resolves: "\<exists>r. apiRequest request m ep p = Inr r"
  by (auto simp: apiRequest_def Let_def split: sum.splits thrown.splits option.splits)

lemma success_false_returned:
  assumes "get_field body ''success'' = DBool False" and "is_ApiResponse body"
  shows "truthy body \<and> \<not> truthy (get_field body ''success'')"
  using assms by (cases body) (simp_all add: is_ApiResponse_def)

text \<open>
  Claim C8, as stated: whatever the server answers, \<open>apiRequest\<close> resolves to an
  \<open>ApiResponse\<close> object. Behind a gateway that answers 502 with an HTML page, the
  failed response has a body that is a non-empty text; its \<open>success\<close> is undefined, so
  the wrapper returns the text itself.
\<close>

theorem apiRequest_html_body_counterexample:
  "apiRequest bad_gateway_client GET ''/api/etfs'' None =
     Inr (DString ''<html><body><h1>502 Bad Gateway</h1></body></html>'') \<and>
   \<not> is_ApiResponse (DString ''<html><body><h1>502 Bad Gateway</h1></body></html>'')"
  by (simp add: apiRequest_def bad_gateway_client_def is_ApiResponse_def)

text \<open>
  Claim C8, amended. For every method, endpoint and payload, and however the HTTP client
  settles, \<open>apiRequest\<close> resolves and throws nothing. A fulfilled request gives the body
  of the response as it came. A failed response whose body is truthy and has no truthy
  \<open>success\<close> gives that body as it came, in particular an \<open>ApiResponse\<close> with
  \<open>success = false\<close>. Any other error of the HTTP client (no response, as on a network
  error or timeout, an empty body, a body with a truthy \<open>success\<close>) gives
  \<open>{success: false, error}\<close> with the error's message, or with the connection-error
  text when the message is empty. Anything else thrown gives \<open>{success: false, error}\<close>
  with \<open>Error inesperado\<close>. The result is an \<open>ApiResponse\<close> object when the body of a
  fulfilled response and every truthy body of a failed one is an \<open>ApiResponse\<close> object.
\<close>

theorem apiRequest_never_throws:
  "(\<exists>r. apiRequest request m ep p = Inr r) \<and>
   (request m ep p = Inr res \<longrightarrow> apiRequest request m ep p = Inr (response_data res)) \<and>
   (request m ep p = Inl (AxiosErr e) \<longrightarrow> response e = Some res \<longrightarrow>
    truthy (response_data res) \<longrightarrow> \<not> truthy (get_field (response_data res) ''success'') \<longrightarrow>
      apiRequest request m ep p = Inr (response_data res)) \<and>
   (request m ep p = Inl (AxiosErr e) \<longrightarrow> response e = Some res \<longrightarrow>
    is_ApiResponse (response_data res) \<longrightarrow>
    get_field (response_data res) ''success'' = DBool False \<longrightarrow>
      apiRequest request m ep p = Inr (response_data res)) \<and>
   (request m ep p = Inl (AxiosErr e) \<longrightarrow> response e = None \<longrightarrow>
      apiRequest request m ep p =
        Inr (failure (if message e = [] then ''Error de conexi'' @ o_acute @ ''n''
                      else message e))) \<and>
   (request m ep p = Inl (AxiosErr e) \<longrightarrow> response e = Some res \<longrightarrow>
    (\<not> truthy (response_data res) \<or> truthy (get_field (response_data res) ''success'')) \<longrightarrow>
      apiRequest request m ep p =
        Inr (failure (if message e = [] then ''Error de conexi'' @ o_acute @ ''n''
                      else message e))) \<and>
   (request m ep p = Inl (OtherThrown x) \<longrightarrow>
      apiRequest request m ep p = Inr (failure ''Error inesperado'')) \<and>
   get_field (failure msg) ''success'' = DBool False \<and>
   get_field (failure msg) ''error'' = DString msg \<and>
   is_ApiResponse (failure msg) \<and>
   ((\<forall>r. request m ep p = Inr r \<longrightarrow> is_ApiResponse (response_data r)) \<longrightarrow>
    (\<forall>a r. request m ep p = Inl (AxiosErr a) \<longrightarrow> response a = Some r \<longrightarrow>
       truthy (response_data r) \<longrightarrow> is_ApiResponse (response_data r)) \<longrightarrow>
      (\<exists>r. apiRequest request m ep p = Inr r \<and> is_ApiResponse r))"
proof -
  have 1: "\<exists>r. apiRequest request m ep p = Inr r"
    by (rule apiRequest_resolves)
  have 2: "request m ep p = Inr res \<longrightarrow> apiRequest request m ep p = Inr (response_data res)"
    by (simp add: apiRequest_def)
  have 3: "request m ep p = Inl (AxiosErr e) \<longrightarrow> response e = Some res \<longrightarrow>
    truthy (response_data res) \<longrightarrow> \<not> truthy (get_field (response_data res) ''success'') \<longrightarrow>
      apiRequest request m ep p = Inr (response_data res)"
    by (simp add: apiRequest_def)
  have 4: "request m ep p = Inl (AxiosErr e) \<longrightarrow> response e = Some res \<longrightarrow>
    is_ApiResponse (response_data res) \<longrightarrow>
    get_field (response_data res) ''success'' = DBool False \<longrightarrow>
      apiRequest request m ep p = Inr (response_data res)"
    using 3 success_false_returned [of "response_data res"] by blast
  have 5: "request m ep p = Inl (AxiosErr e) \<longrightarrow> response e = None \<longrightarrow>
      apiRequest request m ep p =
        Inr (failure (if message e = [] then ''Error de conexi'' @ o_acute @ ''n''
                      else message e))"
    by (simp add: apiRequest_def)
  have 6: "request m ep p = Inl (AxiosErr e) \<longrightarrow> response e = Some res \<longrightarrow>
    (\<not> truthy (response_data res) \<or> truthy (get_field (response_data res) ''success'')) \<longrightarrow>
      apiRequest request m ep p =
        Inr (failure (if message e = [] then ''Error de conexi'' @ o_acute @ ''n''
                      else message e))"
    by (auto simp: apiRequest_def)
  have 7: "request m ep p = Inl (OtherThrown x) \<longrightarrow>
      apiRequest request m ep p = Inr (failure ''Error inesperado'')"
    by (simp add: apiRequest_def)
  have 8: "get_field (failure msg) ''success'' = DBool False"
    "get_field (failure msg) ''error'' = DString msg"
    by (simp_all add: failure_def)
  have 9: "(\<forall>r. request m ep p = Inr r \<longrightarrow> is_ApiResponse (response_data r)) \<longrightarrow>
    (\<forall>a r. request m ep p = Inl (AxiosErr a) \<longrightarrow> response a = Some r \<longrightarrow>
       truthy (response_data r) \<longrightarrow> is_ApiResponse (response_data r)) \<longrightarrow>
      (\<exists>r. apiRequest request m ep p = Inr r \<and> is_ApiResponse r)"
    by (auto simp: apiRequest_def Let_def failure_is_ApiResponse
        split: sum.splits thrown.splits option.splits)
  show ?thesis
    using 1 2 3 4 5 6 7 8 9 failure_is_ApiResponse [of msg] by (simp only: simp_thms)
qed

theorem apiRequest_never_throws_witness:
  "apiRequest answering_client POST ''/api/auth/login'' None =
     Inr (DObject [(''success'', DBool True), (''data'', DString ''ok'')]) \<and>
   is_ApiResponse (DObject [(''success'', DBool True), (''data'', DString ''ok'')]) \<and>
   apiRequest refused_client POST ''/api/auth/register'' None =
     Inr (failure ''Email ya registrado'') \<and>
   apiRequest bad_gateway_client GET ''/api/etfs'' None =
     Inr (DString ''<html><body><h1>502 Bad Gateway</h1></body></html>'') \<and>
   apiRequest offline_client GET ''/api/etfs'' None = Inr (failure ''Network Error'') \<and>
   apiRequest silent_client GET ''/api/etfs'' None =
     Inr (failure (''Error de conexi'' @ o_acute @ ''n'')) \<and>
   apiRequest broken_client DELETE ''/api/auth/logout'' None =
     Inr (failure ''Error inesperado'') \<and>
   (\<exists>r. apiRequest refused_client POST ''/api/auth/register'' None = Inr r \<and> is_ApiResponse r)"
proof -
  let ?okb = "DObject [(''success'', DBool True), (''data'', DString ''ok'')]"
  let ?ok = "\<lparr> status = 200, response_data = ?okb \<rparr>"
  let ?no = "\<lparr> status = 400, response_data = failure ''Email ya registrado'' \<rparr>"
  let ?e400 = "\<lparr> message = ''Request failed with status code 400'', response = Some ?no \<rparr>"
  let ?html = "DString ''<html><body><h1>502 Bad Gateway</h1></body></html>''"
  let ?gw = "\<lparr> status = 502, response_data = ?html \<rparr>"
  let ?e502 = "\<lparr> message = ''Request failed with status code 502'', response = Some ?gw \<rparr>"
  let ?net = "\<lparr> message = ''Network Error'', response = None \<rparr>"
  let ?nil = "\<lparr> message = [], response = None \<rparr>"
  have a: "answering_client POST ''/api/auth/login'' None = Inr ?ok"
    by (simp add: answering_client_def)
  have b: "refused_client POST ''/api/auth/register'' None = Inl (AxiosErr ?e400)"
    by (simp add: refused_client_def)
  have g: "bad_gateway_client GET ''/api/etfs'' None = Inl (AxiosErr ?e502)"
    by (simp add: bad_gateway_client_def)
  have c: "offline_client GET ''/api/etfs'' None = Inl (AxiosErr ?net)"
    by (simp add: offline_client_def)
  have d: "silent_client GET ''/api/etfs'' None = Inl (AxiosErr ?nil)"
    by (simp add: silent_client_def)
  have f: "broken_client DELETE ''/api/auth/logout'' None = Inl (OtherThrown ''not an axios error'')"
    by (simp add: broken_client_def)
  have k: "is_ApiResponse ?okb"
    by (simp add: is_ApiResponse_def)
  from apiRequest_never_throws [of answering_client POST "''/api/auth/login''" None ?ok] a
  have 1: "apiRequest answering_client POST ''/api/auth/login'' None = Inr ?okb"
    by simp
  from apiRequest_never_throws
    [of refused_client POST "''/api/auth/register''" None ?no ?e400 _ "''Email ya registrado''"] b
  have 2: "apiRequest refused_client POST ''/api/auth/register'' None =
      Inr (failure ''Email ya registrado'')"
    by simp
  from apiRequest_never_throws [of bad_gateway_client GET "''/api/etfs''" None ?gw ?e502] g
  have 3: "apiRequest bad_gateway_client GET ''/api/etfs'' None = Inr ?html"
    by simp
  from apiRequest_never_throws [of offline_client GET "''/api/etfs''" None _ ?net] c
  have 4: "apiRequest offline_client GET ''/api/etfs'' None = Inr (failure ''Network Error'')"
    by simp
  from apiRequest_never_throws [of silent_client GET "''/api/etfs''" None _ ?nil] d
  have 5: "apiRequest silent_client GET ''/api/etfs'' None =
      Inr (failure (''Error de conexi'' @ o_acute @ ''n''))"
    by simp
  from apiRequest_never_throws
    [of broken_client DELETE "''/api/auth/logout''" None _ _ "''not an axios error''"] f
  have 6: "apiRequest broken_client DELETE ''/api/auth/logout'' None =
      Inr (failure ''Error inesperado'')"
    by simp
  from apiRequest_never_throws
    [of refused_client POST "''/api/auth/register''" None ?no ?e400 _ "''Email ya registrado''"] b
  have 7: "\<exists>r. apiRequest refused_client POST ''/api/auth/register'' None = Inr r \<and>
      is_ApiResponse r"
    by simp
  show ?thesis
    using k 1 2 3 4 5 6 7 by (simp only: simp_thms)
qed

section \<open>Properties of the diversification score\<close>

lemma concentration_equal_split:
  "concentration_index (map (\<lambda>t. (t, w)) ts) = real (length ts) * w\<^sup>2"
  by (induction ts) (simp_all add: concentration_index_def algebra_simps)

text \<open>
  Claim C3. For every allocation the analysis returns the score
  \<open>1 - \<Sum>(weight\<^sub>i\<^sup>2)\<close>; an allocation of one instrument with weight 1 scores 0, and
  an equal split over five instruments, each with weight 0.2, scores 0.8.
\<close>

theorem diversification_score_formula:
  "score (analyze_diversification category_of alloc) =
     1 - sum_list (map (\<lambda>(ticker, weight). weight\<^sup>2) alloc) \<and>
   score (analyze_diversification category_of [(ticker, 1)]) = 0 \<and>
   score (analyze_diversification category_of
     [(t1, 0.2), (t2, 0.2), (t3, 0.2), (t4, 0.2), (t5, 0.2)]) = 0.8 \<and>
   score (analyze_diversification category_of (map (\<lambda>t. (t, 0.2)) (map fst ETF_COLORS))) = 0.8 \<and>
   score (analyze_diversification readme_category [(''ACWI'', 1)]) = 0"
proof -
  have s: "score (analyze_diversification c a) = 1 - concentration_index a" for c a
    by (simp add: analyze_diversification_def Let_def)
  have 1: "score (analyze_diversification category_of alloc) =
     1 - sum_list (map (\<lambda>(ticker, weight). weight\<^sup>2) alloc)"
    by (simp add: s concentration_index_def)
  have 2: "score (analyze_diversification c [(t, 1)]) = 0" for c t
    by (simp add: s concentration_index_def)
  have 3: "score (analyze_diversification category_of
     [(t1, 0.2), (t2, 0.2), (t3, 0.2), (t4, 0.2), (t5, 0.2)]) = 0.8"
    by (simp add: s concentration_index_def power2_eq_square)
  have 4: "score (analyze_diversification category_of
      (map (\<lambda>t. (t, 0.2)) (map fst ETF_COLORS))) = 0.8"
    unfolding s concentration_equal_split
    by (simp add: ETF_COLORS_def power2_eq_square)
  show ?thesis
    using 1 2 3 4 by simp
qed

section \<open>Properties of the questionnaire scorer\<close>

lemma sum_points_bounds:
  "sum_points rs = Inr s \<Longrightarrow> (\<forall>p. Inr p \<in> set rs \<longrightarrow> 0 \<le> p \<and> p \<le> 5) \<Longrightarrow>
   0 \<le> s \<and> s \<le> 5 * int (length rs)"
proof (induction rs arbitrary: s)
  case Nil
  then show ?case by simp
next
  case (Cons r rs)
  from Cons.prems(1) obtain p s' where r: "r = Inr p" and s': "sum_points rs = Inr s'"
    and s: "s = p + s'"
    by (auto split: sum.splits)
  from Cons.prems(2) r have p: "0 \<le> p \<and> p \<le> 5" by simp
  from Cons.prems(2) have "\<forall>p. Inr p \<in> set rs \<longrightarrow> 0 \<le> p \<and> p \<le> 5" by simp
  from Cons.IH [OF s' this] have "0 \<le> s' \<and> s' \<le> 5 * int (length rs)" .
  with p s show ?case by simp
qed

lemma sum_points_total:
  "(\<forall>r \<in> set rs. \<exists>p. r = Inr p) \<Longrightarrow> \<exists>s. sum_points rs = Inr s"
  by (induction rs) auto

lemma age_of_range: "age_of v = Some a \<Longrightarrow> 18 \<le> a \<and> a \<le> 100"
proof (cases v)
  case (JNumber x)
  assume "age_of v = Some a"
  with JNumber have x: "x = real_of_int \<lfloor>x\<rfloor>" "18 \<le> x" "x \<le> 100" and a: "a = \<lfloor>x\<rfloor>"
    by (auto split: if_splits)
  from x(2) have "18 \<le> \<lfloor>x\<rfloor>" by (simp add: le_floor_iff)
  moreover from x(3) have "\<lfloor>x\<rfloor> \<le> 100" by (simp add: floor_le_iff)
  ultimately show ?thesis using a by simp
qed simp_all

lemma field_points_range:
  assumes t: "points_in_range t" and k: "k \<in> set (''age'' # categorical_fields)"
    and p: "field_points t answers k = Inr p"
  shows "0 \<le> p \<and> p \<le> 5"
proof (cases "k = ''age''")
  case True
  with p obtain a where a: "age_of (get_prop answers ''age'') = Some a" and pa: "p = age_points t a"
    by (auto simp: field_points_def split: option.splits)
  from age_of_range [OF a] t show ?thesis
    unfolding pa by (simp add: points_in_range_def)
next
  case False
  with k have kc: "k \<in> set categorical_fields" by simp
  from False p obtain l where "map_of (label_points t k) l = Some p"
    by (auto simp: field_points_def split: jsvalue.splits option.splits)
  then have "(l, p) \<in> set (label_points t k)" by (rule map_of_SomeD)
  then have "p \<in> set (map snd (label_points t k))" by force
  with t kc show ?thesis
    unfolding points_in_range_def by blast
qed

lemma field_points_valid:
  assumes t: "points_in_range t" and v: "valid_answers answers"
    and k: "k \<in> set (''age'' # categorical_fields)"
  shows "\<exists>p. field_points t answers k = Inr p"
proof (cases "k = ''age''")
  case True
  with v show ?thesis
    by (auto simp: field_points_def valid_answers_def)
next
  case False
  with k have kc: "k \<in> set categorical_fields" by simp
  with v have "in_label_set k (get_prop answers k)"
    by (simp add: valid_answers_def list_all_iff)
  then obtain l where g: "get_prop answers k = JString l" and l: "l \<in> set (options_of k)"
    by (cases "get_prop answers k") auto
  from t kc l have "l \<in> set (map fst (label_points t k))"
    unfolding points_in_range_def by blast
  then have "map_of (label_points t k) l \<noteq> None"
    by (simp add: map_of_eq_None_iff)
  with False g show ?thesis
    by (auto simp: field_points_def)
qed

lemma field_points_cong:
  "get_prop a k = get_prop b k \<Longrightarrow> field_points t a k = field_points t b k"
  by (cases "k = ''age''") (simp_all add: field_points_def)

lemma score_range:
  assumes t: "points_in_range t" and s: "questionnaire_score t answers = Inr s"
  shows "0 \<le> s \<and> s \<le> 50"
proof -
  let ?rs = "map (field_points t answers) (map fst QuestionnaireAnswers)"
  have "\<forall>p. Inr p \<in> set ?rs \<longrightarrow> 0 \<le> p \<and> p \<le> 5"
  proof (intro allI impI)
    fix p assume "Inr p \<in> set ?rs"
    then obtain k where k: "k \<in> set (map fst QuestionnaireAnswers)"
      and p: "field_points t answers k = Inr p"
      unfolding set_map by force
    from k have "k \<in> set (''age'' # categorical_fields)"
      unfolding interface_keys .
    with t show "0 \<le> p \<and> p \<le> 5" using p by (rule field_points_range)
  qed
  from sum_points_bounds [OF s [unfolded questionnaire_score_def] this]
  have "0 \<le> s \<and> s \<le> 5 * int (length ?rs)" .
  moreover have "length ?rs = 10" by (simp add: QuestionnaireAnswers_def)
  ultimately show ?thesis by simp
qed

lemma score_total:
  assumes t: "points_in_range t" and v: "valid_answers answers"
  shows "\<exists>s. questionnaire_score t answers = Inr s"
  unfolding questionnaire_score_def
proof (rule sum_points_total)
  show "\<forall>r \<in> set (map (field_points t answers) (map fst QuestionnaireAnswers)). \<exists>p. r = Inr p"
  proof
    fix r assume "r \<in> set (map (field_points t answers) (map fst QuestionnaireAnswers))"
    then obtain k where k: "k \<in> set (map fst QuestionnaireAnswers)"
      and r: "r = field_points t answers k"
      unfolding set_map by force
    from k have "k \<in> set (''age'' # categorical_fields)"
      unfolding interface_keys .
    from field_points_valid [OF t v this] r show "\<exists>p. r = Inr p" by simp
  qed
qed

text \<open>
  Claim C1. With a table whose point values are within the specified range, the total
  score of any accepted set of answers lies in [0, 50]; valid answers are always scored;
  and the score is a function of the ten answers alone: two submissions that agree on
  the ten fields have the same result.
\<close>

theorem score_deterministic_in_range:
  assumes "points_in_range t"
  shows "(questionnaire_score t answers = Inr s \<longrightarrow> 0 \<le> s \<and> s \<le> 50) \<and>
         (valid_answers answers \<longrightarrow>
            (\<exists>s. questionnaire_score t answers = Inr s \<and> 0 \<le> s \<and> s \<le> 50)) \<and>
         ((\<forall>k \<in> set (map fst QuestionnaireAnswers). get_prop answers' k = get_prop answers k) \<longrightarrow>
            questionnaire_score t answers' = questionnaire_score t answers)"
proof -
  have 1: "questionnaire_score t answers = Inr s \<longrightarrow> 0 \<le> s \<and> s \<le> 50"
    using score_range [OF assms] by blast
  have 2: "valid_answers answers \<longrightarrow>
      (\<exists>s. questionnaire_score t answers = Inr s \<and> 0 \<le> s \<and> s \<le> 50)"
  proof
    assume "valid_answers answers"
    with assms obtain s where s: "questionnaire_score t answers = Inr s"
      using score_total by blast
    with assms have "0 \<le> s \<and> s \<le> 50" by (rule score_range)
    with s show "\<exists>s. questionnaire_score t answers = Inr s \<and> 0 \<le> s \<and> s \<le> 50" by blast
  qed
  have 3: "(\<forall>k \<in> set (map fst QuestionnaireAnswers). get_prop answers' k = get_prop answers k) \<longrightarrow>
      questionnaire_score t answers' = questionnaire_score t answers"
  proof
    assume "\<forall>k \<in> set (map fst QuestionnaireAnswers). get_prop answers' k = get_prop answers k"
    then have "map (field_points t answers') (map fst QuestionnaireAnswers) =
        map (field_points t answers) (map fst QuestionnaireAnswers)"
      by (intro map_cong refl field_points_cong) blast
    then show "questionnaire_score t answers' = questionnaire_score t answers"
      by (simp only: questionnaire_score_def)
  qed
  show ?thesis
    using 1 2 3 by blast
qed

lemma options_at_most_five: "k \<in> set categorical_fields \<Longrightarrow> length (options_of k) \<le> 5"
  by (auto simp: categorical_fields_def options_of_def questions_def)

lemma sample_table_in_range: "points_in_range sample_table"
  unfolding points_in_range_def
proof (intro conjI allI impI ballI)
  fix a :: int
  show "0 \<le> age_points sample_table a" by (simp add: sample_table_def)
  show "age_points sample_table a \<le> 5" by (simp add: sample_table_def)
next
  fix k assume "k \<in> set categorical_fields"
  then have "length (options_of k) \<le> 5"
    by (rule options_at_most_five)
  then show "set (map fst (label_points sample_table k)) = set (options_of k)"
    by (simp add: sample_table_def map_fst_zip_take)
next
  fix k p assume "k \<in> set categorical_fields" "p \<in> set (map snd (label_points sample_table k))"
  then have "p \<in> set [1, 2, 3, 4, 5]"
    by (auto simp: sample_table_def dest: set_zip_rightD)
  then show "0 \<le> p" by auto
next
  fix k p assume "k \<in> set categorical_fields" "p \<in> set (map snd (label_points sample_table k))"
  then have "p \<in> set [1, 2, 3, 4, 5]"
    by (auto simp: sample_table_def dest: set_zip_rightD)
  then show "p \<le> 5" by auto
qed

lemma demo_submission_valid: "valid_answers demo_submission"
  by (simp add: valid_answers_def categorical_fields_def demo_submission_def get_prop_def
      options_of_def questions_def)

lemma demo_submission_score: "questionnaire_score sample_table demo_submission = Inr 26"
  by (simp add: questionnaire_score_def QuestionnaireAnswers_def field_points_def
      demo_submission_def get_prop_def sample_table_def options_of_def questions_def
      n_tilde_def a_acute_def)

lemma demo_submission_reversed:
  "\<forall>k \<in> set (map fst QuestionnaireAnswers).
     get_prop (rev demo_submission) k = get_prop demo_submission k"
  by (simp add: QuestionnaireAnswers_def demo_submission_def get_prop_def)

theorem score_deterministic_in_range_witness:
  "points_in_range sample_table \<and>
   valid_answers demo_submission \<and>
   questionnaire_score sample_table demo_submission = Inr 26 \<and>
   (\<exists>s. questionnaire_score sample_table demo_submission = Inr s \<and> 0 \<le> s \<and> s \<le> 50) \<and>
   questionnaire_score sample_table (rev demo_submission) =
     questionnaire_score sample_table demo_submission"
  using score_deterministic_in_range
      [OF sample_table_in_range, of demo_submission 26 "rev demo_submission"]
    sample_table_in_range demo_submission_valid demo_submission_score demo_submission_reversed
  by blast

section \<open>Labels outside a field's set\<close>

lemma field_points_error:
  "field_points t answers f = Inl e \<Longrightarrow> e = ValidationError f"
  by (cases "f = ''age''")
    (auto simp: field_points_def split: option.splits jsvalue.splits)

lemma field_points_off_label:
  assumes t: "points_in_range t" and k: "k \<in> set categorical_fields"
    and v: "\<not> in_label_set k (get_prop answers k)"
  shows "field_points t answers k = Inl (ValidationError k)"
proof -
  from k age_not_categorical have n: "k \<noteq> ''age''" by blast
  show ?thesis
  proof (cases "get_prop answers k")
    case (JString l)
    with v have "l \<notin> set (options_of k)" by simp
    with t k have "l \<notin> set (map fst (label_points t k))"
      unfolding points_in_range_def by blast
    then have "map_of (label_points t k) l = None"
      by (simp add: map_of_eq_None_iff)
    with n JString show ?thesis by (simp add: field_points_def)
  qed (simp_all add: field_points_def n)
qed

lemma field_points_on_label:
  assumes t: "points_in_range t" and j: "j \<in> set categorical_fields"
    and v: "in_label_set j (get_prop answers j)"
  shows "\<exists>p. field_points t answers j = Inr p"
proof -
  from j age_not_categorical have n: "j \<noteq> ''age''" by blast
  from v obtain l where g: "get_prop answers j = JString l" and l: "l \<in> set (options_of j)"
    by (cases "get_prop answers j") auto
  from t j l have "l \<in> set (map fst (label_points t j))"
    unfolding points_in_range_def by blast
  then have "map_of (label_points t j) l \<noteq> None"
    by (simp add: map_of_eq_None_iff)
  with n g show ?thesis by (auto simp: field_points_def)
qed

lemma field_points_age:
  "age_of (get_prop answers ''age'') \<noteq> None \<Longrightarrow> \<exists>p. field_points t answers ''age'' = Inr p"
  by (auto simp: field_points_def)

lemma sum_points_error:
  "Inl e \<in> set rs \<Longrightarrow> \<exists>e'. sum_points rs = Inl e' \<and> Inl e' \<in> set rs"
  by (induction rs) (auto split: sum.splits)

lemma sum_points_only_error:
  "Inl e \<in> set rs \<Longrightarrow> (\<forall>r \<in> set rs. r = Inl e \<or> (\<exists>p. r = Inr p)) \<Longrightarrow> sum_points rs = Inl e"
proof (induction rs)
  case Nil
  then show ?case by simp
next
  case (Cons r rs)
  show ?case
  proof (cases r)
    case (Inl a)
    with Cons.prems(2) have "a = e" by auto
    with Inl show ?thesis by simp
  next
    case (Inr p)
    with Cons.prems(1) have "Inl e \<in> set rs" by auto
    moreover from Cons.prems(2) have "\<forall>r \<in> set rs. r = Inl e \<or> (\<exists>p. r = Inr p)" by simp
    ultimately have "sum_points rs = Inl e" by (rule Cons.IH)
    with Inr show ?thesis by simp
  qed
qed

text \<open>
  Claim C2. For every questionnaire submission, whenever one of the nine categorical
  fields carries a value that is not a label of that field's set (a text outside the
  set, a value that is no text, or nothing), scoring fails with a ValidationError: the
  field itself is refused, the error returned names a refused field of the
  questionnaire, it names this field when the age and the other categorical fields are
  within their domains, and no score is returned, so no default stands in for the value.
\<close>

theorem off_label_answer_fails_validation:
  assumes "points_in_range t" and "k \<in> set categorical_fields"
    and "\<not> in_label_set k (get_prop answers k)"
  shows "field_points t answers k = Inl (ValidationError k) \<and>
         (\<exists>f. f \<in> set (map fst QuestionnaireAnswers) \<and>
              questionnaire_score t answers = Inl (ValidationError f) \<and>
              field_points t answers f = Inl (ValidationError f)) \<and>
         (\<forall>s. questionnaire_score t answers \<noteq> Inr s) \<and>
         (age_of (get_prop answers ''age'') \<noteq> None \<longrightarrow>
          list_all (\<lambda>j. j = k \<or> in_label_set j (get_prop answers j)) categorical_fields \<longrightarrow>
            questionnaire_score t answers = Inl (ValidationError k))"
proof -
  let ?keys = "map fst QuestionnaireAnswers"
  let ?rs = "map (field_points t answers) ?keys"
  have 1: "field_points t answers k = Inl (ValidationError k)"
    using assms by (rule field_points_off_label)
  from assms(2) have kk: "k \<in> set ?keys"
    unfolding interface_keys by simp
  with 1 have in_rs: "Inl (ValidationError k) \<in> set ?rs"
    unfolding set_map by force
  from sum_points_error [OF in_rs]
  obtain e where e: "sum_points ?rs = Inl e" and m: "Inl e \<in> set ?rs" by blast
  from m obtain f where f: "f \<in> set ?keys" and fe: "field_points t answers f = Inl e"
    unfolding set_map by force
  from fe have ef: "e = ValidationError f" by (rule field_points_error)
  have 2: "\<exists>f. f \<in> set ?keys \<and> questionnaire_score t answers = Inl (ValidationError f) \<and>
      field_points t answers f = Inl (ValidationError f)"
    using e f fe ef unfolding questionnaire_score_def by blast
  have 3: "\<forall>s. questionnaire_score t answers \<noteq> Inr s"
    using e unfolding questionnaire_score_def by simp
  have 4: "age_of (get_prop answers ''age'') \<noteq> None \<longrightarrow>
      list_all (\<lambda>j. j = k \<or> in_label_set j (get_prop answers j)) categorical_fields \<longrightarrow>
        questionnaire_score t answers = Inl (ValidationError k)"
  proof (intro impI)
    assume a: "age_of (get_prop answers ''age'') \<noteq> None"
      and o: "list_all (\<lambda>j. j = k \<or> in_label_set j (get_prop answers j)) categorical_fields"
    have "\<forall>r \<in> set ?rs. r = Inl (ValidationError k) \<or> (\<exists>p. r = Inr p)"
    proof
      fix r assume "r \<in> set ?rs"
      then obtain j where j: "j \<in> set (''age'' # categorical_fields)"
        and r: "r = field_points t answers j"
        unfolding set_map interface_keys by force
      show "r = Inl (ValidationError k) \<or> (\<exists>p. r = Inr p)"
      proof (cases "j = ''age''")
        case True
        with a r show ?thesis using field_points_age [of answers t] by simp
      next
        case False
        with j have jc: "j \<in> set categorical_fields" by simp
        with o have "j = k \<or> in_label_set j (get_prop answers j)"
          by (simp add: list_all_iff)
        then show ?thesis
        proof
          assume "j = k"
          with r 1 show ?thesis by simp
        next
          assume "in_label_set j (get_prop answers j)"
          from field_points_on_label [OF assms(1) jc this] r show ?thesis by simp
        qed
      qed
    qed
    with in_rs have "sum_points ?rs = Inl (ValidationError k)"
      by (rule sum_points_only_error)
    then show "questionnaire_score t answers = Inl (ValidationError k)"
      by (simp only: questionnaire_score_def)
  qed
  show ?thesis
    using 1 2 3 4 by (simp only: simp_thms)
qed

lemma off_list_horizon: "\<not> in_label_set ''horizon'' (get_prop off_list_submission ''horizon'')"
  by (simp add: off_list_submission_def get_prop_def options_of_def questions_def n_tilde_def)

lemma off_list_others:
  "list_all (\<lambda>j. j = ''horizon'' \<or> in_label_set j (get_prop off_list_submission j))
     categorical_fields"
  by (simp add: categorical_fields_def off_list_submission_def demo_submission_def
      get_prop_def options_of_def questions_def)

lemma off_list_age: "age_of (get_prop off_list_submission ''age'') \<noteq> None"
  by (simp add: off_list_submission_def demo_submission_def get_prop_def)

theorem off_label_answer_fails_validation_witness:
  "points_in_range sample_table \<and>
   ''horizon'' \<in> set categorical_fields \<and>
   \<not> in_label_set ''horizon'' (get_prop off_list_submission ''horizon'') \<and>
   age_of (get_prop off_list_submission ''age'') \<noteq> None \<and>
   list_all (\<lambda>j. j = ''horizon'' \<or> in_label_set j (get_prop off_list_submission j))
     categorical_fields \<and>
   field_points sample_table off_list_submission ''horizon'' = Inl (ValidationError ''horizon'') \<and>
   questionnaire_score sample_table off_list_submission = Inl (ValidationError ''horizon'')"
proof -
  have h: "''horizon'' \<in> set categorical_fields"
    by (simp add: categorical_fields_def)
  from off_label_answer_fails_validation [OF sample_table_in_range h off_list_horizon]
    off_list_age off_list_others
  have "field_points sample_table off_list_submission ''horizon'' =
      Inl (ValidationError ''horizon'') \<and>
    questionnaire_score sample_table off_list_submission = Inl (ValidationError ''horizon'')"
    by blast
  with sample_table_in_range h off_list_horizon off_list_age off_list_others
  show ?thesis by (simp only: simp_thms)
qed

end
